theory Spec2Isabelle
  imports Complex_Main "HOL-Library.Sublist" "HOL-Library.Log_Nat" "HOL-Library.AList"
begin

section \<open>Python values\<close>

text \<open>
  The service exchanges JSON with the generation service. A decoded JSON document is a
  Python value: \<open>None\<close>, a bool, an int, a float, a str, a list or a dict with str keys.
  A dict is an association list whose keys are distinct, looked up with \<open>map_of\<close>.
  A str is a list of characters; the model never looks inside a character.
  A float is a rational (every finite double is one), an infinity or NaN, which
  \<open>json.loads\<close> accepts.
\<close>

type_synonym bytes = string

datatype pyfloat = Finite rat | PosInf | NegInf | NaN

datatype json =
    JNull
  | JBool bool
  | JInt int
  | JFloat pyfloat
  | JStr string
  | JArr "json list"
  | JObj "(string \<times> json) list"

text \<open>
  Exceptions. \<open>Raised msg\<close> is an exception raised by a library or the operating system
  (a closed socket, a failed file operation) whose \<open>str()\<close> is \<open>msg\<close>; the others are
  raised by the interpreter while it evaluates the source's expressions.
\<close>

datatype exn =
    KeyError json
  | TypeError
  | IndexError
  | ZeroDivisionError
  | JSONDecodeError
  | Raised string

text \<open>
  A call returns a value, raises, or never comes back because it is blocked in
  \<open>ws.recv()\<close> with no further frame arriving.
\<close>

datatype 'a outcome = Returns 'a | Raises exn | Blocks

text \<open>Truth value of a Python value (\<open>if x\<close>, \<open>not x\<close>).\<close>

fun truthy :: "json \<Rightarrow> bool" where
  "truthy JNull = False"
| "truthy (JBool b) = b"
| "truthy (JInt i) = (i \<noteq> 0)"
| "truthy (JFloat f) = (f \<noteq> Finite 0)"
| "truthy (JStr s) = (s \<noteq> [])"
| "truthy (JArr xs) = (xs \<noteq> [])"
| "truthy (JObj kvs) = (kvs \<noteq> [])"

text \<open>\<open>v[k]\<close> for a str key \<open>k\<close>: only a dict can be subscripted with a str.\<close>

fun getitem_str :: "json \<Rightarrow> string \<Rightarrow> exn + json" where
  "getitem_str (JObj kvs) k =
     (case map_of kvs k of None \<Rightarrow> Inl (KeyError (JStr k)) | Some v \<Rightarrow> Inr v)"
| "getitem_str JNull k = Inl TypeError"
| "getitem_str (JBool b) k = Inl TypeError"
| "getitem_str (JInt i) k = Inl TypeError"
| "getitem_str (JFloat f) k = Inl TypeError"
| "getitem_str (JStr s) k = Inl TypeError"
| "getitem_str (JArr xs) k = Inl TypeError"

text \<open>\<open>v[0]\<close>: the first element of a list or str; a dict has no int key.\<close>

fun getitem_0 :: "json \<Rightarrow> exn + json" where
  "getitem_0 (JArr xs) = (case xs of [] \<Rightarrow> Inl IndexError | x # _ \<Rightarrow> Inr x)"
| "getitem_0 (JStr s) = (case s of [] \<Rightarrow> Inl IndexError | c # _ \<Rightarrow> Inr (JStr [c]))"
| "getitem_0 (JObj kvs) = Inl (KeyError (JInt 0))"
| "getitem_0 JNull = Inl TypeError"
| "getitem_0 (JBool b) = Inl TypeError"
| "getitem_0 (JInt i) = Inl TypeError"
| "getitem_0 (JFloat f) = Inl TypeError"

text \<open>The numeric value of a bool, an int or a float.\<close>

fun num_of :: "json \<Rightarrow> pyfloat option" where
  "num_of (JBool b) = Some (Finite (if b then 1 else 0))"
| "num_of (JInt i) = Some (Finite (of_int i))"
| "num_of (JFloat f) = Some f"
| "num_of JNull = None"
| "num_of (JStr s) = None"
| "num_of (JArr xs) = None"
| "num_of (JObj kvs) = None"

text \<open>
  \<open>a == b\<close> on decoded JSON: numbers (bools included) compare by value and NaN equals
  nothing; strs and lists compare structurally; dicts compare as mappings.
\<close>

fun py_eq :: "json \<Rightarrow> json \<Rightarrow> bool"
  and py_eq_list :: "json list \<Rightarrow> json list \<Rightarrow> bool"
  and py_eq_items :: "(string \<times> json) list \<Rightarrow> (string \<times> json) list \<Rightarrow> bool" where
  "py_eq JNull b = (b = JNull)"
| "py_eq (JStr s) b = (b = JStr s)"
| "py_eq (JArr xs) b = (case b of JArr ys \<Rightarrow> py_eq_list xs ys | _ \<Rightarrow> False)"
| "py_eq (JObj xs) b =
     (case b of JObj ys \<Rightarrow> length xs = length ys \<and> py_eq_items xs ys | _ \<Rightarrow> False)"
| "py_eq (JBool x) b =
     (case num_of b of None \<Rightarrow> False | Some y \<Rightarrow> Finite (if x then 1 else 0) = y)"
| "py_eq (JInt x) b =
     (case num_of b of None \<Rightarrow> False | Some y \<Rightarrow> Finite (of_int x) = y)"
| "py_eq (JFloat x) b =
     (case num_of b of None \<Rightarrow> False | Some y \<Rightarrow> x = y \<and> x \<noteq> NaN)"
| "py_eq_list [] ys = (ys = [])"
| "py_eq_list (x # xs) ys =
     (case ys of [] \<Rightarrow> False | y # ys' \<Rightarrow> py_eq x y \<and> py_eq_list xs ys')"
| "py_eq_items [] ys = True"
| "py_eq_items ((k, v) # xs) ys =
     ((case map_of ys k of None \<Rightarrow> False | Some v' \<Rightarrow> py_eq v v') \<and> py_eq_items xs ys)"

text \<open>
  \<open>k in v\<close> for a str \<open>k\<close>: a key of a dict, an element of a list, a substring of a str;
  \<open>None\<close> and numbers are not iterable.
\<close>

fun py_in :: "string \<Rightarrow> json \<Rightarrow> exn + bool" where
  "py_in k (JObj kvs) = Inr (map_of kvs k \<noteq> None)"
| "py_in k (JArr xs) = Inr (\<exists>x \<in> set xs. py_eq x (JStr k))"
| "py_in k (JStr s) = Inr (sublist k s)"
| "py_in k JNull = Inl TypeError"
| "py_in k (JBool b) = Inl TypeError"
| "py_in k (JInt i) = Inl TypeError"
| "py_in k (JFloat f) = Inl TypeError"

section \<open>Configuration\<close>

definition FINAL_IMAGES_DIR :: string where
  "FINAL_IMAGES_DIR = ''final_images''"

definition COMFYUI_URL :: string where
  "COMFYUI_URL = ''127.0.0.1:8188''"

text \<open>\<open>os.path.join\<close> of two components on a POSIX system.\<close>

definition os_path_join :: "string \<Rightarrow> string \<Rightarrow> string" where
  "os_path_join a b =
     (if (case b of [] \<Rightarrow> False | c # _ \<Rightarrow> c = CHR ''/'') then b
      else if a = [] \<or> last a = CHR ''/'' then a @ b
      else a @ ''/'' @ b)"

section \<open>Process state\<close>

text \<open>
  What the claims observe of the process: the files the service has written (path to
  content; a relative path is relative to the working directory, which is the
  directory of the application), whether the WebSocket connection of the running
  request is open, and the log of the calls made to the file-transfer server.
\<close>

datatype ftp_call = FtpLogin string string string | FtpCwd string | FtpStor string | FtpQuit

record state =
  disk :: "string \<rightharpoonup> bytes"
  ws_open :: bool
  ftp_log :: "ftp_call list"

section \<open>Completion watcher\<close>

text \<open>
  The outside world as the watcher meets it. \<open>create_connection\<close> either opens the
  connection or raises. Each pass of the receive loop consumes one \<open>step\<close>: what
  \<open>ws.recv()\<close> yields (an exception, or a frame), how the generation service answers
  \<open>GET /view\<close> if the pass issues it, and whether writing the final image succeeds if the
  pass attempts it. A text frame is given by what \<open>json.loads\<close> makes of its payload:
  \<open>None\<close> when it raises \<open>JSONDecodeError\<close>. When the steps are used up no further frame
  arrives and \<open>ws.recv()\<close> blocks.
\<close>

datatype frame = Text "json option" | Binary

text \<open>
  The body of the \<open>try\<close> in \<open>get_image_from_comfyui\<close> (\<open>requests.get\<close>,
  \<open>raise_for_status\<close>, \<open>.content\<close>) yields the content, raises a
  \<open>RequestException\<close>, or raises something else (also while the URL is encoded).
\<close>

datatype http_get = Content bytes | RequestException string | GetRaises string

record step =
  recv :: "string + frame"
  view :: "json \<Rightarrow> json \<Rightarrow> json \<Rightarrow> http_get"
  open_wb :: "string \<Rightarrow> string option"

record ws_env =
  create_connection :: "string \<Rightarrow> string option"
  steps :: "step list"

definition get_image_from_comfyui ::
  "(json \<Rightarrow> json \<Rightarrow> json \<Rightarrow> http_get) \<Rightarrow> json \<Rightarrow> json \<Rightarrow> json \<Rightarrow> exn + bytes option" where
  "get_image_from_comfyui get filename subfolder folder_type =
     (case get filename subfolder folder_type of
        Content c \<Rightarrow> Inr (Some c)
      | RequestException e \<Rightarrow> Inr None
      | GetRaises e \<Rightarrow> Inl (Raised e))"

text \<open>
  The condition of line 97,
  \<open>message['type'] == 'executed' and message['data']['prompt_id'] == prompt_id\<close>:
  \<open>and\<close> evaluates its right operand only when the left one holds.
\<close>

definition is_executed_for :: "json \<Rightarrow> json \<Rightarrow> exn + bool" where
  "is_executed_for message prompt_id =
     (case getitem_str message ''type'' of
        Inl e \<Rightarrow> Inl e
      | Inr t \<Rightarrow>
          if py_eq t (JStr ''executed'') then
            (case getitem_str message ''data'' of
               Inl e \<Rightarrow> Inl e
             | Inr d \<Rightarrow>
                 (case getitem_str d ''prompt_id'' of
                    Inl e \<Rightarrow> Inl e
                  | Inr p \<Rightarrow> Inr (py_eq p prompt_id)))
          else Inr False)"

text \<open>\<open>message['data']['output']['images']\<close> (line 100).\<close>

definition output_images :: "json \<Rightarrow> exn + json" where
  "output_images message =
     (case getitem_str message ''data'' of
        Inl e \<Rightarrow> Inl e
      | Inr d \<Rightarrow>
          (case getitem_str d ''output'' of
             Inl e \<Rightarrow> Inl e
           | Inr out \<Rightarrow> getitem_str out ''images''))"

text \<open>
  One pass of the \<open>while True\<close> body, lines 94 to 120. The result \<open>None\<close> means that
  the pass neither returned nor raised and the loop goes on; \<open>Some out\<close> means that
  control leaves the loop with \<open>out\<close>. On a matching event the first image descriptor is
  fetched; when its bytes are there (not \<open>None\<close> and not empty, line 112) they are
  written to the path \<open>os.path.join(FINAL_IMAGES_DIR, final_filename)\<close> and the name is
  returned. \<open>os.path.join\<close> raises \<open>TypeError\<close> for a file name that is not a str.
\<close>

definition receive_pass ::
  "json \<Rightarrow> step \<Rightarrow> state \<Rightarrow> string option outcome option \<times> state" where
  "receive_pass prompt_id s st =
     (case recv s of
        Inl e \<Rightarrow> (Some (Raises (Raised e)), st)
      | Inr Binary \<Rightarrow> (None, st)
      | Inr (Text None) \<Rightarrow> (Some (Raises JSONDecodeError), st)
      | Inr (Text (Some message)) \<Rightarrow>
     (case is_executed_for message prompt_id of
        Inl e \<Rightarrow> (Some (Raises e), st)
      | Inr False \<Rightarrow> (None, st)
      | Inr True \<Rightarrow>
     (case output_images message of
        Inl e \<Rightarrow> (Some (Raises e), st)
      | Inr output_data \<Rightarrow>
          if \<not> truthy output_data then (Some (Returns None), st)
          else
     (case getitem_0 output_data of
        Inl e \<Rightarrow> (Some (Raises e), st)
      | Inr first_image_data \<Rightarrow>
     (case getitem_str first_image_data ''filename'' of
        Inl e \<Rightarrow> (Some (Raises e), st)
      | Inr filename \<Rightarrow>
     (case getitem_str first_image_data ''subfolder'' of
        Inl e \<Rightarrow> (Some (Raises e), st)
      | Inr subfolder \<Rightarrow>
     (case getitem_str first_image_data ''type'' of
        Inl e \<Rightarrow> (Some (Raises e), st)
      | Inr folder_type \<Rightarrow>
     (case get_image_from_comfyui (view s) filename subfolder folder_type of
        Inl e \<Rightarrow> (Some (Raises e), st)
      | Inr None \<Rightarrow> (None, st)
      | Inr (Some image_content) \<Rightarrow>
          if image_content = [] then (None, st)
          else
     (case filename of
        JStr final_filename \<Rightarrow>
          (let final_image_path = os_path_join FINAL_IMAGES_DIR final_filename in
           case open_wb s final_image_path of
             Some e \<Rightarrow> (Some (Raises (Raised e)), st)
           | None \<Rightarrow>
               (Some (Returns (Some final_filename)),
                st\<lparr>disk := (disk st)(final_image_path \<mapsto> image_content)\<rparr>))
      | _ \<Rightarrow> (Some (Raises TypeError), st))))))))))"

text \<open>
  The loop: one step per pass; when no step is left, \<open>ws.recv()\<close> blocks.
\<close>

fun receive_loop :: "json \<Rightarrow> step list \<Rightarrow> state \<Rightarrow> string option outcome \<times> state" where
  "receive_loop prompt_id [] st = (Blocks, st)"
| "receive_loop prompt_id (s # rest) st =
     (case receive_pass prompt_id s st of
        (None, st') \<Rightarrow> receive_loop prompt_id rest st'
      | (Some out, st') \<Rightarrow> (out, st'))"

text \<open>
  \<open>get_final_image_path_from_websocket\<close>: the connection is opened before the \<open>try\<close>;
  the \<open>finally\<close> clause closes it whenever control leaves the loop. While the loop is
  blocked control has not left it.
\<close>

definition ws_url :: "string \<Rightarrow> string" where
  "ws_url client_id = ''ws://'' @ COMFYUI_URL @ ''/ws?clientId='' @ client_id"

definition get_final_image_path_from_websocket ::
  "ws_env \<Rightarrow> json \<Rightarrow> string \<Rightarrow> state \<Rightarrow> string option outcome \<times> state" where
  "get_final_image_path_from_websocket env prompt_id client_id st =
     (case create_connection env (ws_url client_id) of
        Some e \<Rightarrow> (Raises (Raised e), st)
      | None \<Rightarrow>
          (case receive_loop prompt_id (steps env) (st\<lparr>ws_open := True\<rparr>) of
             (out, st') \<Rightarrow>
               if out = Blocks then (Blocks, st') else (out, st'\<lparr>ws_open := False\<rparr>)))"

subsection \<open>Events as the specification speaks of them\<close>

text \<open>
  The event type of a frame is the \<open>type\<close> field of the JSON object a text frame
  carries; its embedded job id is the \<open>prompt_id\<close> field of its \<open>data\<close> object. A frame
  is insignificant for a job when it is not a text frame, or its event type is not
  \<open>executed\<close>, or it is an \<open>executed\<close> event whose job id differs from the awaited one;
  it is significant when it is an \<open>executed\<close> event for the awaited job. A text frame
  that is not JSON, that carries no \<open>type\<close>, or that is an \<open>executed\<close> event without a
  job id is ill-formed: on it the watcher raises.
\<close>

definition event_type :: "frame \<Rightarrow> json option" where
  "event_type fr =
     (case fr of
        Text (Some m) \<Rightarrow> (case getitem_str m ''type'' of Inl e \<Rightarrow> None | Inr t \<Rightarrow> Some t)
      | _ \<Rightarrow> None)"

definition event_job_id :: "frame \<Rightarrow> json option" where
  "event_job_id fr =
     (case fr of
        Text (Some m) \<Rightarrow>
          (case getitem_str m ''data'' of
             Inl e \<Rightarrow> None
           | Inr d \<Rightarrow> (case getitem_str d ''prompt_id'' of Inl e \<Rightarrow> None | Inr p \<Rightarrow> Some p))
      | _ \<Rightarrow> None)"

definition insignificant :: "json \<Rightarrow> frame \<Rightarrow> bool" where
  "insignificant prompt_id fr =
     (fr = Binary
      \<or> (\<exists>t. event_type fr = Some t \<and> t \<noteq> JStr ''executed'')
      \<or> (event_type fr = Some (JStr ''executed'')
          \<and> (\<exists>p. event_job_id fr = Some p \<and> \<not> py_eq p prompt_id)))"

definition significant :: "json \<Rightarrow> frame \<Rightarrow> bool" where
  "significant prompt_id fr =
     (event_type fr = Some (JStr ''executed'')
      \<and> (\<exists>p. event_job_id fr = Some p \<and> py_eq p prompt_id))"


section \<open>Publisher\<close>

text \<open>
  The environment variables read at start-up: \<open>os.getenv\<close> gives \<open>None\<close> for a variable
  that is not set. A variable counts as present when its value is true in Python's
  sense: set and not empty.
\<close>

record config =
  FTP_HOST :: "string option"
  FTP_USER :: "string option"
  FTP_PASS :: "string option"
  FTP_TARGET_DIR :: "string option"
  BASE_PUBLIC_URL :: "string option"

definition present :: "string option \<Rightarrow> bool" where
  "present v = (case v of None \<Rightarrow> False | Some s \<Rightarrow> s \<noteq> [])"

text \<open>
  The file-transfer server and the local file as the publisher meets them: each call
  either succeeds (\<open>None\<close>) or raises an exception whose \<open>str()\<close> is the given message.
\<close>

record ftp_env =
  ftp_login :: "string \<Rightarrow> string \<Rightarrow> string \<Rightarrow> string option"
  ftp_cwd :: "string \<Rightarrow> string option"
  open_rb :: "string \<Rightarrow> string option"
  ftp_storbinary :: "string \<Rightarrow> string option"
  ftp_quit :: "string option"

text \<open>
  The body of the \<open>try\<close>, lines 139 to 143. Every call made to the server is appended to
  \<open>ftp_log\<close> before its outcome is known. \<open>Inl msg\<close>: the body raised an exception with
  that message.
\<close>

definition ftp_transfer ::
  "ftp_env \<Rightarrow> string \<Rightarrow> string \<Rightarrow> string \<Rightarrow> string \<Rightarrow> string \<Rightarrow> string \<Rightarrow> state
     \<Rightarrow> (string + unit) \<times> state" where
  "ftp_transfer env host user pass target_dir file_path name st =
     (let st1 = st\<lparr>ftp_log := ftp_log st @ [FtpLogin host user pass]\<rparr> in
      case ftp_login env host user pass of
        Some e \<Rightarrow> (Inl e, st1)
      | None \<Rightarrow>
     (let st2 = st1\<lparr>ftp_log := ftp_log st1 @ [FtpCwd target_dir]\<rparr> in
      case ftp_cwd env target_dir of
        Some e \<Rightarrow> (Inl e, st2)
      | None \<Rightarrow>
     (case open_rb env file_path of
        Some e \<Rightarrow> (Inl e, st2)
      | None \<Rightarrow>
     (let st3 = st2\<lparr>ftp_log := ftp_log st2 @ [FtpStor (''STOR '' @ name)]\<rparr> in
      case ftp_storbinary env (''STOR '' @ name) of
        Some e \<Rightarrow> (Inl e, st3)
      | None \<Rightarrow>
     (let st4 = st3\<lparr>ftp_log := ftp_log st3 @ [FtpQuit]\<rparr> in
      case ftp_quit env of
        Some e \<Rightarrow> (Inl e, st4)
      | None \<Rightarrow> (Inr (), st4))))))"

definition upload_final_image_to_ftp ::
  "config \<Rightarrow> ftp_env \<Rightarrow> string \<Rightarrow> string \<Rightarrow> state \<Rightarrow> (bool \<times> string) outcome \<times> state" where
  "upload_final_image_to_ftp cfg env file_path name st =
     (case (FTP_HOST cfg, FTP_USER cfg, FTP_PASS cfg, FTP_TARGET_DIR cfg) of
        (Some host, Some user, Some pass, Some target_dir) \<Rightarrow>
          if host = [] \<or> user = [] \<or> pass = [] \<or> target_dir = []
          then (Returns (False, ''FTP configuration is missing. Please check your .env file''), st)
          else
            (case ftp_transfer env host user pass target_dir file_path name st of
               (Inl e, st') \<Rightarrow> (Returns (False, e), st')
             | (Inr u, st') \<Rightarrow>
                 (Returns (True, ''File '' @ [CHR 0x27] @ name @ [CHR 0x27]
                                  @ '' uploaded to FTP successfully!''), st'))
      | _ \<Rightarrow> (Returns (False, ''FTP configuration is missing. Please check your .env file''), st))"

section \<open>Image compositor\<close>

text \<open>
  Python's float is the IEEE double. \<open>double x\<close> is the double nearest to the rational
  \<open>x\<close>, ties to the even significand, for magnitudes in the normal range: with
  \<open>e = \<lfloor>log\<^sub>2 |x|\<rfloor> - 52\<close> the significand \<open>|x| / 2\<^sup>e\<close> lies in \<open>[2\<^sup>5\<^sup>2, 2\<^sup>5\<^sup>3)\<close> and is rounded to
  an integer. Image sizes are far inside that range. True division of ints, the
  conversion of an int and the product of two floats are each the exact result rounded
  once; \<open>int()\<close> truncates toward zero.
\<close>

definition round_half_even :: "rat \<Rightarrow> int" where
  "round_half_even x =
     (let n = \<lfloor>x\<rfloor>; r = x - of_int n in
      if r < 1 / 2 then n else if 1 / 2 < r then n + 1 else if even n then n else n + 1)"

definition ilog2 :: "rat \<Rightarrow> int" where
  "ilog2 x =
     (case quotient_of x of
        (p, q) \<Rightarrow>
          (let k = bitlen p - bitlen q in
           if 2 powi k \<le> x then k else k - 1))"

definition double :: "rat \<Rightarrow> rat" where
  "double x =
     (if x = 0 then 0
      else (let e = ilog2 \<bar>x\<bar> - 52 in
            sgn x * of_int (round_half_even (\<bar>x\<bar> / 2 powi e)) * 2 powi e))"

definition int_of_float :: "rat \<Rightarrow> int" where
  "int_of_float x = (if 0 \<le> x then \<lfloor>x\<rfloor> else \<lceil>x\<rceil>)"

text \<open>
  An image: its size and its pixel data. What the imaging library computes on pixel
  data (background removal, Lanczos resampling, masked paste) is given by the
  environment; each operation may raise. \<open>resize\<close> returns an image of the requested
  size; \<open>paste\<close> changes the pixel data of the image it is called on, in place.
\<close>

record image =
  im_width :: int
  im_height :: int
  im_pixels :: bytes

record imaging =
  image_open :: "bytes \<Rightarrow> string + image"
  remove_background :: "image \<Rightarrow> string + image"
  resize_lanczos :: "image \<Rightarrow> int \<Rightarrow> int \<Rightarrow> string + bytes"
  paste_masked :: "image \<Rightarrow> image \<Rightarrow> int \<times> int \<Rightarrow> string + bytes"
  save_png :: "string \<Rightarrow> image \<Rightarrow> string option"

text \<open>Lines 172 to 182: the scaled foreground.\<close>

definition new_foreground_height :: "int \<Rightarrow> int \<Rightarrow> int \<Rightarrow> int" where
  "new_foreground_height fg_width fg_height background_width =
     (let aspect_ratio = double (of_int fg_height / of_int fg_width) in
      int_of_float (double (double (of_int background_width) * aspect_ratio)))"

definition resized_foreground :: "imaging \<Rightarrow> image \<Rightarrow> image \<Rightarrow> exn + image" where
  "resized_foreground lib foreground_no_bg background_image =
     (let background_width = im_width background_image;
          fg_width = im_width foreground_no_bg;
          fg_height = im_height foreground_no_bg in
      if fg_width = 0 then Inl ZeroDivisionError
      else
        (let new_width = background_width;
             new_height = new_foreground_height fg_width fg_height background_width in
         case resize_lanczos lib foreground_no_bg new_width new_height of
           Inl e \<Rightarrow> Inl (Raised e)
         | Inr px \<Rightarrow> Inr \<lparr>im_width = new_width, im_height = new_height, im_pixels = px\<rparr>))"

text \<open>Lines 172 to 188: the composite is the background image after the paste.\<close>

definition composite :: "imaging \<Rightarrow> image \<Rightarrow> image \<Rightarrow> exn + image" where
  "composite lib foreground_no_bg background_image =
     (case resized_foreground lib foreground_no_bg background_image of
        Inl e \<Rightarrow> Inl e
      | Inr resized \<Rightarrow>
          (let pos_x = (im_width background_image - im_width resized) div 2;
               pos_y = im_height background_image - im_height resized in
           case paste_masked lib background_image resized (pos_x, pos_y) of
             Inl e \<Rightarrow> Inl (Raised e)
           | Inr px \<Rightarrow> Inr (background_image\<lparr>im_pixels := px\<rparr>)))"

section \<open>Generation client\<close>

text \<open>
  The body of the \<open>try\<close> in \<open>upload_image_to_comfyui\<close> and in \<open>queue_prompt\<close> (opening the
  file, \<open>requests.post\<close>, \<open>raise_for_status\<close>, \<open>.json()\<close>) yields the decoded answer,
  raises a \<open>RequestException\<close>, raises \<open>FileNotFoundError\<close>, or raises something else.
  Both functions turn the exceptions they catch into \<open>None\<close>, here \<open>JNull\<close>.
\<close>

datatype http_post =
    JsonBody json
  | PostRequestException string
  | PostFileNotFound string
  | PostRaises string

definition upload_image_to_comfyui ::
  "(string \<Rightarrow> string \<Rightarrow> http_post) \<Rightarrow> string \<Rightarrow> string \<Rightarrow> exn + json" where
  "upload_image_to_comfyui post image_path name =
     (case post image_path name of
        JsonBody j \<Rightarrow> Inr j
      | PostRequestException e \<Rightarrow> Inr JNull
      | PostFileNotFound e \<Rightarrow> Inr JNull
      | PostRaises e \<Rightarrow> Inl (Raised e))"

definition queue_prompt ::
  "(json \<Rightarrow> string \<Rightarrow> http_post) \<Rightarrow> json \<Rightarrow> string \<Rightarrow> exn + json" where
  "queue_prompt post prompt_workflow client_id =
     (case post prompt_workflow client_id of
        JsonBody j \<Rightarrow> Inr j
      | PostRequestException e \<Rightarrow> Inr JNull
      | PostFileNotFound e \<Rightarrow> Inl (Raised e)
      | PostRaises e \<Rightarrow> Inl (Raised e))"

section \<open>Request handler\<close>

definition OUTPUT_DIR :: string where
  "OUTPUT_DIR = ''merged_images''"

definition WORKFLOW_API_JSON_PATH :: string where
  "WORKFLOW_API_JSON_PATH = ''CheckInt.json''"

definition LOAD_IMAGE_NODE_ID :: string where
  "LOAD_IMAGE_NODE_ID = ''16''"

definition SAVE_IMAGE_NODE_ID :: string where
  "SAVE_IMAGE_NODE_ID = ''35''"

text \<open>\<open>d[k] = v\<close> for a str key: only a dict takes it.\<close>

fun setitem_str :: "json \<Rightarrow> string \<Rightarrow> json \<Rightarrow> exn + json" where
  "setitem_str (JObj kvs) k v = Inr (JObj (AList.update k v kvs))"
| "setitem_str JNull k v = Inl TypeError"
| "setitem_str (JBool b) k v = Inl TypeError"
| "setitem_str (JInt i) k v = Inl TypeError"
| "setitem_str (JFloat f) k v = Inl TypeError"
| "setitem_str (JStr s) k v = Inl TypeError"
| "setitem_str (JArr xs) k v = Inl TypeError"

text \<open>\<open>prompt_workflow[node_id]['inputs'][key] = v\<close> (lines 208 and 211).\<close>

definition set_node_input :: "json \<Rightarrow> string \<Rightarrow> string \<Rightarrow> json \<Rightarrow> exn + json" where
  "set_node_input prompt_workflow node_id key v =
     (case getitem_str prompt_workflow node_id of
        Inl e \<Rightarrow> Inl e
      | Inr node \<Rightarrow>
     (case getitem_str node ''inputs'' of
        Inl e \<Rightarrow> Inl e
      | Inr inputs \<Rightarrow>
     (case setitem_str inputs key v of
        Inl e \<Rightarrow> Inl e
      | Inr inputs' \<Rightarrow>
     (case setitem_str node ''inputs'' inputs' of
        Inl e \<Rightarrow> Inl e
      | Inr node' \<Rightarrow> setitem_str prompt_workflow node_id node'))))"

text \<open>
  One request and the world around it: the uploaded files, the imaging library, the
  clock, the generation service, the workflow file, the WebSocket traffic, the
  file-transfer server, the configuration, and the text \<open>str()\<close> gives for an exception
  the interpreter raised.
\<close>

record upload =
  upload_filename :: string
  upload_stream :: bytes

record world =
  files :: "string \<rightharpoonup> upload"
  lib :: imaging
  now :: string
  post_upload_image :: "string \<Rightarrow> string \<Rightarrow> http_post"
  load_workflow :: "string \<Rightarrow> string + json"
  uuid4 :: string
  post_prompt :: "json \<Rightarrow> string \<Rightarrow> http_post"
  websocket :: ws_env
  ftp :: ftp_env
  settings :: config
  interpreter_text :: "exn \<Rightarrow> string"

type_synonym response = "nat \<times> json"

definition str_exn :: "(exn \<Rightarrow> string) \<Rightarrow> exn \<Rightarrow> string" where
  "str_exn text e = (case e of Raised msg \<Rightarrow> msg | _ \<Rightarrow> text e)"

definition error_body :: "string \<Rightarrow> json" where
  "error_body msg = JObj [(''error'', JStr msg)]"

text \<open>The body of the answer to a failed publish, lines 240 to 245.\<close>

definition publish_failure_body :: "string \<Rightarrow> string \<Rightarrow> json" where
  "publish_failure_body name message =
     JObj [(''message'', JStr ''Workflow completed, but failed to upload image to FTP server.''),
           (''error'', JStr ''Could not upload the final image via FTP.''),
           (''final_image_filename'', JStr name),
           (''ftp_error_details'', JStr message)]"

text \<open>Lines 223 to 249: what the handler does with the watcher's result.\<close>

definition after_watch :: "world \<Rightarrow> string option \<Rightarrow> state \<Rightarrow> response outcome \<times> state" where
  "after_watch w final_filename st =
     (case final_filename of
        None \<Rightarrow>
          (Returns (500, error_body
             ''Workflow completed but could not retrived final image from ComfyUI''), st)
      | Some name \<Rightarrow>
          if name = [] then
            (Returns (500, error_body
               ''Workflow completed but could not retrived final image from ComfyUI''), st)
          else
            (let final_image_path = os_path_join FINAL_IMAGES_DIR name in
             case upload_final_image_to_ftp (settings w) (ftp w) final_image_path name st of
               (Raises e, st') \<Rightarrow> (Raises e, st')
             | (Blocks, st') \<Rightarrow> (Blocks, st')
             | (Returns (success, message), st') \<Rightarrow>
                 if success then
                   (case BASE_PUBLIC_URL (settings w) of
                      None \<Rightarrow>
                        (Returns (500, error_body ''BASE_PUBLIC_URL is not set in .env file''), st')
                    | Some base \<Rightarrow>
                        if base = [] then
                          (Returns (500, error_body ''BASE_PUBLIC_URL is not set in .env file''),
                           st')
                        else
                          (Returns (200, JObj
                             [(''message'', JStr ''Workflow complete. File uploaded successfully.''),
                              (''final_image_url'', JStr (base @ name))]), st'))
                 else (Returns (500, publish_failure_body name message), st')))"

text \<open>Lines 215 to 249: what the handler does with the answer to the job submission.\<close>

definition after_queue ::
  "world \<Rightarrow> json \<Rightarrow> string \<Rightarrow> state \<Rightarrow> response outcome \<times> state" where
  "after_queue w queue_response client_id st =
     (if \<not> truthy queue_response then
        (Returns (500, error_body ''Failed to queue prompt in ComfyUI''), st)
      else
     (case py_in ''prompt_id'' queue_response of
        Inl e \<Rightarrow> (Raises e, st)
      | Inr False \<Rightarrow> (Returns (500, error_body ''Failed to queue prompt in ComfyUI''), st)
      | Inr True \<Rightarrow>
     (case getitem_str queue_response ''prompt_id'' of
        Inl e \<Rightarrow> (Raises e, st)
      | Inr prompt_id \<Rightarrow>
     (case get_final_image_path_from_websocket (websocket w) prompt_id client_id st of
        (Raises e, st') \<Rightarrow> (Raises e, st')
      | (Blocks, st') \<Rightarrow> (Blocks, st')
      | (Returns final_filename, st') \<Rightarrow> after_watch w final_filename st'))))"

text \<open>Lines 198 to 249: what the handler does with the answer to the asset upload.\<close>

definition after_upload ::
  "world \<Rightarrow> string \<Rightarrow> json \<Rightarrow> state \<Rightarrow> response outcome \<times> state" where
  "after_upload w timestamp upload_response st =
     (if \<not> truthy upload_response then
        (Returns (500, error_body ''Failed to upload merge image to ComfyUI''), st)
      else
     (case py_in ''name'' upload_response of
        Inl e \<Rightarrow> (Raises e, st)
      | Inr False \<Rightarrow> (Returns (500, error_body ''Failed to upload merge image to ComfyUI''), st)
      | Inr True \<Rightarrow>
     (case getitem_str upload_response ''name'' of
        Inl e \<Rightarrow> (Raises e, st)
      | Inr comfyui_filename \<Rightarrow>
     (case load_workflow w WORKFLOW_API_JSON_PATH of
        Inl e \<Rightarrow> (Raises (Raised e), st)
      | Inr prompt_workflow \<Rightarrow>
     (case set_node_input prompt_workflow LOAD_IMAGE_NODE_ID ''image'' comfyui_filename of
        Inl e \<Rightarrow> (Raises e, st)
      | Inr workflow1 \<Rightarrow>
     (case set_node_input workflow1 SAVE_IMAGE_NODE_ID ''filename_prefix''
             (JStr (''checkint_'' @ timestamp)) of
        Inl e \<Rightarrow> (Raises e, st)
      | Inr workflow2 \<Rightarrow>
     (case queue_prompt (post_prompt w) workflow2 (uuid4 w) of
        Inl e \<Rightarrow> (Raises e, st)
      | Inr queue_response \<Rightarrow> after_queue w queue_response (uuid4 w) st)))))))"

text \<open>Lines 164 to 249: the body of the handler's \<open>try\<close>.\<close>

definition merged_filename :: "world \<Rightarrow> string" where
  "merged_filename w = ''merged_result_'' @ now w @ ''.png''"

definition merged_path :: "world \<Rightarrow> string" where
  "merged_path w = os_path_join OUTPUT_DIR (merged_filename w)"

definition merge_try :: "world \<Rightarrow> upload \<Rightarrow> upload \<Rightarrow> state \<Rightarrow> response outcome \<times> state" where
  "merge_try w foreground_file background_file st =
     (case image_open (lib w) (upload_stream foreground_file) of
        Inl e \<Rightarrow> (Raises (Raised e), st)
      | Inr foreground_image \<Rightarrow>
     (case image_open (lib w) (upload_stream background_file) of
        Inl e \<Rightarrow> (Raises (Raised e), st)
      | Inr background_image \<Rightarrow>
     (case remove_background (lib w) foreground_image of
        Inl e \<Rightarrow> (Raises (Raised e), st)
      | Inr foreground_no_bg \<Rightarrow>
     (case composite (lib w) foreground_no_bg background_image of
        Inl e \<Rightarrow> (Raises e, st)
      | Inr merged \<Rightarrow>
     (case save_png (lib w) (merged_path w) merged of
        Some e \<Rightarrow> (Raises (Raised e), st)
      | None \<Rightarrow>
     (case upload_image_to_comfyui (post_upload_image w) (merged_path w) (merged_filename w) of
        Inl e \<Rightarrow> (Raises e, st)
      | Inr upload_response \<Rightarrow> after_upload w (now w) upload_response st))))))"

text \<open>The blanket \<open>except Exception\<close> of lines 251 to 258.\<close>

definition catch_all ::
  "world \<Rightarrow> response outcome \<times> state \<Rightarrow> response outcome \<times> state" where
  "catch_all w r =
     (case r of
        (Raises exception, st') \<Rightarrow>
          (Returns (500, JObj
             [(''error'', JStr ''An internal server error occurred ''),
              (''details'', JStr (str_exn (interpreter_text w) exception))]), st')
      | (Returns resp, st') \<Rightarrow> (Returns resp, st')
      | (Blocks, st') \<Rightarrow> (Blocks, st'))"

text \<open>
  \<open>merge_images\<close>: the two checks of the request, then the \<open>try\<close>. The handler answers,
  or never does when the watcher blocks.
\<close>

definition merge_images :: "world \<Rightarrow> state \<Rightarrow> response outcome \<times> state" where
  "merge_images w st =
     (case (files w ''foreground_file'', files w ''background_file'') of
        (Some foreground_file, Some background_file) \<Rightarrow>
          if upload_filename foreground_file = [] \<or> upload_filename background_file = [] then
            (Returns (400, error_body ''One or both files are not selected''), st)
          else catch_all w (merge_try w foreground_file background_file st)
      | _ \<Rightarrow> (Returns (400, error_body ''Missing one or both files in the request''), st))"

text \<open>
  \<open>GET /final_image/<filename>\<close>. The route's \<open>filename\<close> is a non-empty text without a
  slash: for any other name no route matches and the answer is 404. In the view,
  \<open>send_from_directory\<close> refuses \<open>..\<close>, joins the name to \<open>FINAL_IMAGES_DIR\<close> and answers
  with the file at that path when it is a regular file (\<open>.\<close> names the directory
  itself); every other case is 404, whose body is not modelled.
\<close>

definition plain_name :: "string \<Rightarrow> bool" where
  "plain_name name = (name \<noteq> [] \<and> CHR ''/'' \<notin> set name \<and> name \<noteq> ''.'' \<and> name \<noteq> ''..'')"

definition get_final_image :: "state \<Rightarrow> string \<Rightarrow> nat \<times> bytes option" where
  "get_final_image st name =
     (if name = [] \<or> CHR ''/'' \<in> set name then (404, None)
      else if name = ''..'' \<or> name = ''.'' then (404, None)
      else
        (case disk st (os_path_join FINAL_IMAGES_DIR name) of
           Some content \<Rightarrow> (200, Some content)
         | None \<Rightarrow> (404, None)))"

subsection \<open>Stages as the specification speaks of them\<close>

text \<open>
  \<open>composited\<close>: both files are there with non-empty names, both images decode, the
  background removal and the compositing succeed and the composite is saved.
  \<open>upload_accepted\<close>: moreover the asset upload answers with an object that has the
  \<open>name\<close> field. \<open>job_prepared\<close>: moreover the workflow template loads and takes the
  two values. \<open>job_queued\<close>: moreover the job submission answers with an object that has
  the \<open>prompt_id\<close> field. \<open>generated\<close>: moreover the watcher returns a file name.
\<close>

definition composited :: "world \<Rightarrow> bool" where
  "composited w =
     (\<exists>fg bg fg_image bg_image fg_no_bg merged.
        files w ''foreground_file'' = Some fg \<and> files w ''background_file'' = Some bg
        \<and> upload_filename fg \<noteq> [] \<and> upload_filename bg \<noteq> []
        \<and> image_open (lib w) (upload_stream fg) = Inr fg_image
        \<and> image_open (lib w) (upload_stream bg) = Inr bg_image
        \<and> remove_background (lib w) fg_image = Inr fg_no_bg
        \<and> composite (lib w) fg_no_bg bg_image = Inr merged
        \<and> save_png (lib w) (merged_path w) merged = None)"

definition upload_accepted :: "world \<Rightarrow> json \<Rightarrow> bool" where
  "upload_accepted w comfyui_filename =
     (composited w
      \<and> (\<exists>kvs. upload_image_to_comfyui (post_upload_image w) (merged_path w) (merged_filename w)
                   = Inr (JObj kvs)
                \<and> map_of kvs ''name'' = Some comfyui_filename))"

definition job_prepared :: "world \<Rightarrow> json \<Rightarrow> bool" where
  "job_prepared w workflow2 =
     (\<exists>comfyui_filename prompt_workflow workflow1.
        upload_accepted w comfyui_filename
        \<and> load_workflow w WORKFLOW_API_JSON_PATH = Inr prompt_workflow
        \<and> set_node_input prompt_workflow LOAD_IMAGE_NODE_ID ''image'' comfyui_filename
              = Inr workflow1
        \<and> set_node_input workflow1 SAVE_IMAGE_NODE_ID ''filename_prefix''
              (JStr (''checkint_'' @ now w)) = Inr workflow2)"

definition job_queued :: "world \<Rightarrow> json \<Rightarrow> bool" where
  "job_queued w prompt_id =
     (\<exists>workflow2 kvs.
        job_prepared w workflow2
        \<and> queue_prompt (post_prompt w) workflow2 (uuid4 w) = Inr (JObj kvs)
        \<and> map_of kvs ''prompt_id'' = Some prompt_id)"

definition generated :: "world \<Rightarrow> state \<Rightarrow> string \<Rightarrow> state \<Rightarrow> bool" where
  "generated w st name st1 =
     (\<exists>prompt_id.
        job_queued w prompt_id
        \<and> get_final_image_path_from_websocket (websocket w) prompt_id (uuid4 w) st
              = (Returns (Some name), st1)
        \<and> name \<noteq> [])"

subsection \<open>Answers of the generation service as the specification speaks of them\<close>

text \<open>
  An answer is missing a field when it is \<open>None\<close> or otherwise false, or is an object, a
  list or a str that does not contain the field's name: these are the answers the
  checks of lines 198 and 215 catch. An answer is unreadable for a field when it is
  none of these and not an object either: a number other than zero, \<open>true\<close>, or a list or
  str that contains the field's name; on these the handler raises \<open>TypeError\<close>.
\<close>

definition field_missing :: "string \<Rightarrow> json \<Rightarrow> bool" where
  "field_missing k r =
     (\<not> truthy r
      \<or> (case r of
            JObj kvs \<Rightarrow> map_of kvs k = None
          | JArr xs \<Rightarrow> JStr k \<notin> set xs
          | JStr s \<Rightarrow> \<not> sublist k s
          | _ \<Rightarrow> False))"

definition field_unreadable :: "string \<Rightarrow> json \<Rightarrow> bool" where
  "field_unreadable k r =
     (truthy r
      \<and> (case r of
            JBool b \<Rightarrow> True
          | JInt i \<Rightarrow> True
          | JFloat f \<Rightarrow> True
          | JArr xs \<Rightarrow> JStr k \<in> set xs
          | JStr s \<Rightarrow> sublist k s
          | _ \<Rightarrow> False))"

section \<open>Example inputs\<close>

text \<open>
  Concrete frames, steps, images and environments on which the theorems below are
  instantiated.
\<close>

definition job1 :: json where "job1 = JStr ''job-1''"

definition quiet_step :: "frame \<Rightarrow> step" where
  "quiet_step fr = \<lparr>recv = Inr fr, view = (\<lambda>f s t. RequestException ''unreachable''),
     open_wb = (\<lambda>p. None)\<rparr>"

definition serving_step :: "frame \<Rightarrow> step" where
  "serving_step fr = \<lparr>recv = Inr fr, view = (\<lambda>f s t. Content ''PNG''),
     open_wb = (\<lambda>p. None)\<rparr>"

definition executed_event :: "string \<Rightarrow> json list \<Rightarrow> frame" where
  "executed_event job images =
     Text (Some (JObj [(''type'', JStr ''executed''),
       (''data'', JObj [(''prompt_id'', JStr job), (''output'', JObj [(''images'', JArr images)])])]))"

definition progress_event :: "string \<Rightarrow> frame" where
  "progress_event job =
     Text (Some (JObj [(''type'', JStr ''progress''),
       (''data'', JObj [(''prompt_id'', JStr job), (''value'', JInt 3)])]))"

definition image_descriptor :: "string \<Rightarrow> json" where
  "image_descriptor name =
     JObj [(''filename'', JStr name), (''subfolder'', JStr []), (''type'', JStr ''output'')]"

definition open_env :: "step list \<Rightarrow> ws_env" where
  "open_env ss = \<lparr>create_connection = (\<lambda>url. None), steps = ss\<rparr>"

definition idle :: state where
  "idle = \<lparr>disk = Map.empty, ws_open = False, ftp_log = []\<rparr>"

definition closed_step :: step where
  "closed_step = \<lparr>recv = Inl ''Connection to remote host was lost.'',
     view = (\<lambda>f s t. RequestException ''unreachable''), open_wb = (\<lambda>p. None)\<rparr>"

definition full_config :: config where
  "full_config = \<lparr>FTP_HOST = Some ''ftp.example.org'', FTP_USER = Some ''publisher'',
     FTP_PASS = Some ''secret'', FTP_TARGET_DIR = Some ''/public'',
     BASE_PUBLIC_URL = Some ''https://example.org/public/''\<rparr>"

definition good_ftp :: ftp_env where
  "good_ftp = \<lparr>ftp_login = (\<lambda>h u p. None), ftp_cwd = (\<lambda>d. None), open_rb = (\<lambda>p. None),
     ftp_storbinary = (\<lambda>c. None), ftp_quit = None\<rparr>"

definition no_such_dir :: string where
  "no_such_dir = ''550 Failed to change directory.''"

definition portrait :: image where
  "portrait = \<lparr>im_width = 600, im_height = 800, im_pixels = ''FG''\<rparr>"

definition backdrop :: image where
  "backdrop = \<lparr>im_width = 400, im_height = 300, im_pixels = ''BG''\<rparr>"

definition plain_lib :: imaging where
  "plain_lib =
     \<lparr>image_open = (\<lambda>b. if b = ''FG'' then Inr portrait else if b = ''BG'' then Inr backdrop
                         else Inl ''cannot identify image file''),
      remove_background = (\<lambda>im. Inr im),
      resize_lanczos = (\<lambda>im w h. if w < 1 \<or> h < 1 then Inl ''height and width must be > 0''
                                  else Inr ''scaled''),
      paste_masked = (\<lambda>bg fg pos. Inr ''pasted''),
      save_png = (\<lambda>p im. None)\<rparr>"

definition workflow_template :: json where
  "workflow_template =
     JObj [(''16'', JObj [(''class_type'', JStr ''LoadImage''),
                          (''inputs'', JObj [(''image'', JStr ''placeholder.png'')])]),
           (''35'', JObj [(''class_type'', JStr ''SaveImage''),
                          (''inputs'', JObj [(''filename_prefix'', JStr ''ComfyUI'')])])]"

definition example_world :: world where
  "example_world =
     \<lparr>files = [''foreground_file'' \<mapsto> \<lparr>upload_filename = ''person.png'', upload_stream = ''FG''\<rparr>,
               ''background_file'' \<mapsto> \<lparr>upload_filename = ''beach.png'', upload_stream = ''BG''\<rparr>],
      lib = plain_lib,
      now = ''20240101_120000000000'',
      post_upload_image = (\<lambda>p n. JsonBody (JObj [(''name'', JStr n), (''type'', JStr ''input'')])),
      load_workflow = (\<lambda>p. Inr workflow_template),
      uuid4 = ''c1'',
      post_prompt = (\<lambda>workflow c. JsonBody (JObj [(''prompt_id'', JStr ''job-1''), (''number'', JInt 1)])),
      websocket = open_env [quiet_step (progress_event ''job-1''),
                            serving_step (executed_event ''job-1'' [image_descriptor ''a.png''])],
      ftp = good_ftp,
      settings = full_config,
      interpreter_text = (\<lambda>e. ''exception'')\<rparr>"

definition example_workflow2 :: json where
  "example_workflow2 =
     JObj [(''16'', JObj [(''class_type'', JStr ''LoadImage''),
                          (''inputs'', JObj [(''image'', JStr ''merged_result_20240101_120000000000.png'')])]),
           (''35'', JObj [(''class_type'', JStr ''SaveImage''),
                          (''inputs'', JObj [(''filename_prefix'', JStr ''checkint_20240101_120000000000'')])])]"

definition stored :: state where
  "stored = idle\<lparr>disk := (disk idle)(''final_images/a.png'' \<mapsto> ''PNG''), ws_open := False\<rparr>"

definition numeric_upload_world :: world where
  "numeric_upload_world = example_world\<lparr>post_upload_image := (\<lambda>p n. JsonBody (JInt 5))\<rparr>"

definition absolute_name_world :: world where
  "absolute_name_world =
     example_world
       \<lparr>websocket := open_env [serving_step (executed_event ''job-1'' [image_descriptor ''/tmp/a.png''])],
        ftp := good_ftp\<lparr>ftp_cwd := (\<lambda>d. Some no_such_dir)\<rparr>\<rparr>"

definition stored_outside :: state where
  "stored_outside = idle\<lparr>disk := (disk idle)(''/tmp/a.png'' \<mapsto> ''PNG''), ws_open := False\<rparr>"

section \<open>Properties of the completion watcher\<close>

lemma py_eq_JStr [simp]: "py_eq t (JStr s) \<longleftrightarrow> t = JStr s"
  by (cases t) (auto split: json.splits option.splits)

lemma is_executed_for_insignificant:
  assumes "insignificant prompt_id (Text (Some m))"
  shows "is_executed_for m prompt_id = Inr False"
  using assms
  by (auto simp: insignificant_def event_type_def event_job_id_def is_executed_for_def
      split: sum.splits)

lemma receive_pass_insignificant:
  assumes "recv s = Inr fr" "insignificant prompt_id fr"
  shows "receive_pass prompt_id s st = (None, st)"
proof (cases fr)
  case (Text jo)
  show ?thesis
  proof (cases jo)
    case None
    with Text assms show ?thesis
      by (simp add: insignificant_def event_type_def event_job_id_def)
  next
    case (Some m)
    with Text assms is_executed_for_insignificant[of prompt_id m] show ?thesis
      by (simp add: receive_pass_def Let_def)
  qed
next
  case Binary
  with assms show ?thesis by (simp add: receive_pass_def Let_def)
qed

lemma receive_loop_drop:
  assumes "\<And>st'. receive_pass prompt_id s st' = (None, st')"
  shows "receive_loop prompt_id (pre @ s # rest) st = receive_loop prompt_id (pre @ rest) st"
proof (induction pre arbitrary: st)
  case Nil
  show ?case using assms by simp
next
  case (Cons a pre)
  show ?case by (simp add: Cons.IH split: prod.splits option.splits)
qed

lemma receive_loop_skip_all:
  assumes "\<forall>s \<in> set pre. \<exists>fr. recv s = Inr fr \<and> insignificant prompt_id fr"
  shows "receive_loop prompt_id (pre @ rest) st = receive_loop prompt_id rest st"
  using assms
proof (induction pre)
  case Nil
  show ?case by simp
next
  case (Cons s pre)
  then obtain fr where "recv s = Inr fr" "insignificant prompt_id fr" by auto
  then have "receive_pass prompt_id s st = (None, st)"
    by (rule receive_pass_insignificant)
  with Cons show ?case by simp
qed





lemma receive_pass_ws_open_aux:
  "ws_open (snd (receive_pass prompt_id s st)) = ws_open st"
  unfolding receive_pass_def Let_def
  by (simp split: sum.split frame.split option.split bool.split json.split)

lemma receive_pass_ws_open:
  "receive_pass prompt_id s st = (r, st') \<Longrightarrow> ws_open st' = ws_open st"
  using receive_pass_ws_open_aux[of prompt_id s st] by simp

lemma receive_loop_ws_open:
  "receive_loop prompt_id ss st = (out, st') \<Longrightarrow> ws_open st' = ws_open st"
proof (induction ss arbitrary: st)
  case Nil
  then show ?case by auto
next
  case (Cons s ss)
  obtain o1 st1 where p: "receive_pass prompt_id s st = (o1, st1)" by (cases "receive_pass prompt_id s st")
  then have "ws_open st1 = ws_open st" by (rule receive_pass_ws_open)
  with p Cons show ?case by (cases o1) auto
qed

lemma watcher_connected:
  assumes "create_connection env (ws_url client_id) = None"
    and "receive_loop prompt_id ss (st\<lparr>ws_open := True\<rparr>) = (out, st')"
  shows "get_final_image_path_from_websocket (env\<lparr>steps := ss\<rparr>) prompt_id client_id st =
     (out, if out = Blocks then st' else st'\<lparr>ws_open := False\<rparr>)"
  using assms by (simp add: get_final_image_path_from_websocket_def)


lemma insignificant_progress: "insignificant prompt_id (progress_event job)"
  by (simp add: insignificant_def event_type_def progress_event_def)


lemma significant_own_job: "significant job1 (executed_event ''job-1'' images)"
  by (simp add: significant_def event_type_def event_job_id_def executed_event_def job1_def)

lemma output_images_executed_event:
  "output_images (JObj [(''type'', JStr ''executed''),
       (''data'', JObj [(''prompt_id'', JStr job), (''output'', JObj [(''images'', JArr images)])])])
   = Inr (JArr images)"
  by (simp add: output_images_def)







text \<open>
  Claim C3. An \<open>executed\<close> event for the awaited job whose output-image list is empty
  makes the watcher return \<open>None\<close>; it does not raise.
\<close>

theorem empty_output_returns_none:
  assumes "create_connection env (ws_url client_id) = None"
    and "steps env = pre @ s # rest"
    and "\<forall>s' \<in> set pre. \<exists>fr'. recv s' = Inr fr' \<and> insignificant prompt_id fr'"
    and "recv s = Inr (Text (Some m))"
    and "significant prompt_id (Text (Some m))"
    and "output_images m = Inr (JArr [])"
  shows "get_final_image_path_from_websocket env prompt_id client_id st
         = (Returns None, st\<lparr>ws_open := False\<rparr>)"
proof -
  have m: "is_executed_for m prompt_id = Inr True"
    using assms(5)
    by (auto simp: significant_def event_type_def event_job_id_def is_executed_for_def
        split: sum.splits)
  have "receive_pass prompt_id s (st\<lparr>ws_open := True\<rparr>) = (Some (Returns None), st\<lparr>ws_open := True\<rparr>)"
    using assms(4,6) m by (simp add: receive_pass_def Let_def)
  then have "receive_loop prompt_id (s # rest) (st\<lparr>ws_open := True\<rparr>)
      = (Returns None, st\<lparr>ws_open := True\<rparr>)"
    by simp
  with receive_loop_skip_all[OF assms(3), of "s # rest" "st\<lparr>ws_open := True\<rparr>"]
  have "receive_loop prompt_id (steps env) (st\<lparr>ws_open := True\<rparr>)
      = (Returns None, st\<lparr>ws_open := True\<rparr>)"
    using assms(2) by simp
  from watcher_connected[OF assms(1) this] show ?thesis by simp
qed

theorem empty_output_returns_none_witness:
  "get_final_image_path_from_websocket
     (open_env [quiet_step (progress_event ''job-1''), quiet_step (executed_event ''job-1'' []),
                quiet_step Binary])
     job1 ''c1'' idle
   = (Returns None, idle\<lparr>ws_open := False\<rparr>)"
proof -
  let ?env = "open_env [quiet_step (progress_event ''job-1''),
     quiet_step (executed_event ''job-1'' []), quiet_step Binary]"
  show ?thesis
  proof (rule empty_output_returns_none[of ?env "''c1''" "[quiet_step (progress_event ''job-1'')]"
        "quiet_step (executed_event ''job-1'' [])" "[quiet_step Binary]" job1 _ idle])
    show "create_connection ?env (ws_url ''c1'') = None" by (simp add: open_env_def)
    show "steps ?env = [quiet_step (progress_event ''job-1'')] @ quiet_step (executed_event ''job-1'' []) # [quiet_step Binary]"
      by (simp add: open_env_def)
    show "\<forall>s' \<in> set [quiet_step (progress_event ''job-1'')]. \<exists>fr'. recv s' = Inr fr' \<and> insignificant job1 fr'"
      by (simp add: quiet_step_def insignificant_progress)
    show "recv (quiet_step (executed_event ''job-1'' [])) = Inr (Text (Some (JObj [(''type'', JStr ''executed''),
       (''data'', JObj [(''prompt_id'', JStr ''job-1''), (''output'', JObj [(''images'', JArr [])])])])))"
      by (simp add: quiet_step_def executed_event_def)
    show "significant job1 (Text (Some (JObj [(''type'', JStr ''executed''),
       (''data'', JObj [(''prompt_id'', JStr ''job-1''), (''output'', JObj [(''images'', JArr [])])])])))"
      using significant_own_job[of "[]"] by (simp add: executed_event_def)
    show "output_images (JObj [(''type'', JStr ''executed''),
       (''data'', JObj [(''prompt_id'', JStr ''job-1''), (''output'', JObj [(''images'', JArr [])])])]) = Inr (JArr [])"
      by (rule output_images_executed_event)
  qed
qed

text \<open>Three runs that leave the loop: with a file name, with \<open>None\<close>, with an exception.\<close>

lemma final_image_path_example:
  "os_path_join FINAL_IMAGES_DIR ''a.png'' = ''final_images/a.png''"
  by (simp add: os_path_join_def FINAL_IMAGES_DIR_def)

lemma is_executed_for_own_job:
  "is_executed_for (JObj [(''type'', JStr ''executed''),
       (''data'', JObj [(''prompt_id'', JStr ''job-1''), (''output'', JObj [(''images'', JArr images)])])]) job1
   = Inr True"
  by (simp add: is_executed_for_def job1_def)

lemma run_returns_name:
  "get_final_image_path_from_websocket
     (open_env [serving_step (executed_event ''job-1'' [image_descriptor ''a.png''])]) job1 ''c1'' idle
   = (Returns (Some ''a.png''),
      idle\<lparr>disk := (disk idle)(''final_images/a.png'' \<mapsto> ''PNG''), ws_open := False\<rparr>)"
  by (simp add: get_final_image_path_from_websocket_def open_env_def receive_pass_def Let_def
      serving_step_def executed_event_def is_executed_for_own_job output_images_executed_event
      image_descriptor_def get_image_from_comfyui_def final_image_path_example)

lemma run_returns_none:
  "get_final_image_path_from_websocket
     (open_env [quiet_step (executed_event ''job-1'' [])]) job1 ''c1'' idle
   = (Returns None, idle\<lparr>ws_open := False\<rparr>)"
  by (simp add: get_final_image_path_from_websocket_def open_env_def receive_pass_def Let_def
      quiet_step_def executed_event_def is_executed_for_own_job output_images_executed_event)

lemma run_raises:
  "get_final_image_path_from_websocket (open_env [closed_step]) job1 ''c1'' idle
   = (Raises (Raised ''Connection to remote host was lost.''), idle\<lparr>ws_open := False\<rparr>)"
  by (simp add: get_final_image_path_from_websocket_def open_env_def receive_pass_def Let_def
      closed_step_def)

text \<open>
  Claim C4. Once the connection has been opened it is open as long as the watcher is
  blocked in the loop, and it is closed on every exit: a returned file name, a returned
  \<open>None\<close>, or an exception raised inside the loop.
\<close>

theorem connection_closed_on_every_exit:
  assumes "create_connection env (ws_url client_id) = None"
    and "get_final_image_path_from_websocket env prompt_id client_id st = (out, st')"
  shows "(out = Blocks \<longrightarrow> ws_open st') \<and> (out \<noteq> Blocks \<longrightarrow> \<not> ws_open st')"
proof -
  obtain o1 st1 where l: "receive_loop prompt_id (steps env) (st\<lparr>ws_open := True\<rparr>) = (o1, st1)"
    by (cases "receive_loop prompt_id (steps env) (st\<lparr>ws_open := True\<rparr>)")
  then have "ws_open st1" using receive_loop_ws_open by fastforce
  with watcher_connected[OF assms(1) l] assms(2) show ?thesis
    by (auto split: if_splits)
qed

theorem connection_closed_on_every_exit_witness:
  "\<not> ws_open (idle\<lparr>disk := (disk idle)(''final_images/a.png'' \<mapsto> ''PNG''), ws_open := False\<rparr>)
   \<and> \<not> ws_open (idle\<lparr>ws_open := False\<rparr>)
   \<and> get_final_image_path_from_websocket (open_env [closed_step]) job1 ''c1'' idle
       = (Raises (Raised ''Connection to remote host was lost.''), idle\<lparr>ws_open := False\<rparr>)"
proof -
  have c: "\<And>ss. create_connection (open_env ss) (ws_url ''c1'') = None"
    by (simp add: open_env_def)
  from connection_closed_on_every_exit[OF c run_returns_name]
  have 1: "\<not> ws_open (idle\<lparr>disk := (disk idle)(''final_images/a.png'' \<mapsto> ''PNG''), ws_open := False\<rparr>)"
    by simp
  from connection_closed_on_every_exit[OF c run_returns_none]
  have 2: "\<not> ws_open (idle\<lparr>ws_open := False\<rparr>)" by simp
  from connection_closed_on_every_exit[OF c run_raises] run_raises 1 2 show ?thesis
    by simp
qed

text \<open>
  Claim C10. When an \<open>executed\<close> event for the awaited job carries a non-empty image
  list and the fetch of the first image yields nothing, the pass neither returns nor
  raises: the watcher behaves as if the frame had not arrived, and with no further frame
  it stays blocked with the connection open.
\<close>

theorem failed_fetch_resumes_loop:
  assumes "create_connection env (ws_url client_id) = None"
    and "recv s = Inr (Text (Some m))"
    and "significant prompt_id (Text (Some m))"
    and "output_images m = Inr (JArr (d # ds))"
    and "getitem_str d ''filename'' = Inr fn"
    and "getitem_str d ''subfolder'' = Inr sf"
    and "getitem_str d ''type'' = Inr ty"
    and "get_image_from_comfyui (view s) fn sf ty = Inr None"
  shows "get_final_image_path_from_websocket (env\<lparr>steps := pre @ s # rest\<rparr>) prompt_id client_id st
         = get_final_image_path_from_websocket (env\<lparr>steps := pre @ rest\<rparr>) prompt_id client_id st
       \<and> get_final_image_path_from_websocket (env\<lparr>steps := [s]\<rparr>) prompt_id client_id st
         = (Blocks, st\<lparr>ws_open := True\<rparr>)"
proof -
  have m: "is_executed_for m prompt_id = Inr True"
    using assms(3)
    by (auto simp: significant_def event_type_def event_job_id_def is_executed_for_def
        split: sum.splits)
  have p: "\<And>st'. receive_pass prompt_id s st' = (None, st')"
    using assms(2,4,5,6,7,8) m by (simp add: receive_pass_def Let_def)
  obtain out st1 where l: "receive_loop prompt_id (pre @ rest) (st\<lparr>ws_open := True\<rparr>) = (out, st1)"
    by (cases "receive_loop prompt_id (pre @ rest) (st\<lparr>ws_open := True\<rparr>)")
  have "receive_loop prompt_id (pre @ s # rest) (st\<lparr>ws_open := True\<rparr>)
      = receive_loop prompt_id (pre @ rest) (st\<lparr>ws_open := True\<rparr>)"
    by (rule receive_loop_drop) (rule p)
  with l have l': "receive_loop prompt_id (pre @ s # rest) (st\<lparr>ws_open := True\<rparr>) = (out, st1)"
    by simp
  have 1: "get_final_image_path_from_websocket (env\<lparr>steps := pre @ s # rest\<rparr>) prompt_id client_id st
         = get_final_image_path_from_websocket (env\<lparr>steps := pre @ rest\<rparr>) prompt_id client_id st"
    by (simp only: watcher_connected[OF assms(1) l] watcher_connected[OF assms(1) l'])
  have "receive_loop prompt_id [s] (st\<lparr>ws_open := True\<rparr>) = (Blocks, st\<lparr>ws_open := True\<rparr>)"
    by (simp add: p)
  from watcher_connected[OF assms(1) this] 1 show ?thesis by simp
qed

theorem failed_fetch_resumes_loop_witness:
  "get_final_image_path_from_websocket
     (open_env [quiet_step (executed_event ''job-1'' [image_descriptor ''a.png''])]) job1 ''c1'' idle
   = (Blocks, idle\<lparr>ws_open := True\<rparr>)"
proof -
  let ?m = "JObj [(''type'', JStr ''executed''),
       (''data'', JObj [(''prompt_id'', JStr ''job-1''),
          (''output'', JObj [(''images'', JArr [image_descriptor ''a.png''])])])]"
  let ?s = "quiet_step (executed_event ''job-1'' [image_descriptor ''a.png''])"
  have "get_final_image_path_from_websocket ((open_env [])\<lparr>steps := [?s]\<rparr>) job1 ''c1'' idle
         = (Blocks, idle\<lparr>ws_open := True\<rparr>)"
  proof (rule failed_fetch_resumes_loop[of "open_env []" "''c1''" ?s ?m job1
        "image_descriptor ''a.png''" "[]" "JStr ''a.png''" "JStr []" "JStr ''output''" "[]" "[]" idle,
        THEN conjunct2])
    show "create_connection (open_env []) (ws_url ''c1'') = None" by (simp add: open_env_def)
    show "recv ?s = Inr (Text (Some ?m))" by (simp add: quiet_step_def executed_event_def)
    show "significant job1 (Text (Some ?m))"
      using significant_own_job[of "[image_descriptor ''a.png'']"] by (simp add: executed_event_def)
    show "output_images ?m = Inr (JArr [image_descriptor ''a.png''])"
      by (rule output_images_executed_event)
    show "getitem_str (image_descriptor ''a.png'') ''filename'' = Inr (JStr ''a.png'')"
      by (simp add: image_descriptor_def)
    show "getitem_str (image_descriptor ''a.png'') ''subfolder'' = Inr (JStr [])"
      by (simp add: image_descriptor_def)
    show "getitem_str (image_descriptor ''a.png'') ''type'' = Inr (JStr ''output'')"
      by (simp add: image_descriptor_def)
    show "get_image_from_comfyui (view ?s) (JStr ''a.png'') (JStr []) (JStr ''output'') = Inr None"
      by (simp add: get_image_from_comfyui_def quiet_step_def)
  qed
  then show ?thesis by (simp add: open_env_def)
qed

section \<open>Properties of the publisher\<close>

lemma ftp_transfer_cwd_fails:
  "ftp_transfer (good_ftp\<lparr>ftp_cwd := (\<lambda>d. Some no_such_dir)\<rparr>)
      ''ftp.example.org'' ''publisher'' ''secret'' ''/public'' ''final_images/a.png'' ''a.png'' idle
   = (Inl no_such_dir,
      idle\<lparr>ftp_log := [FtpLogin ''ftp.example.org'' ''publisher'' ''secret'', FtpCwd ''/public'']\<rparr>)"
  by (simp add: ftp_transfer_def good_ftp_def idle_def)

text \<open>
  Claim C5. The publisher always returns a pair and never raises. When one of host, user,
  password and target directory is absent it returns \<open>False\<close> with a message that says
  so and leaves the state as it was: no call to the server is logged. When the transfer
  raises, the exception is turned into \<open>False\<close> with the exception's message.
\<close>

theorem publish_never_raises:
  "(\<exists>ok msg st'. upload_final_image_to_ftp cfg env file_path name st = (Returns (ok, msg), st'))
   \<and> (\<not> (present (FTP_HOST cfg) \<and> present (FTP_USER cfg) \<and> present (FTP_PASS cfg)
           \<and> present (FTP_TARGET_DIR cfg)) \<longrightarrow>
        upload_final_image_to_ftp cfg env file_path name st
          = (Returns (False, ''FTP configuration is missing. Please check your .env file''), st))
   \<and> (\<forall>host user pass target_dir e st'.
         FTP_HOST cfg = Some host \<and> FTP_USER cfg = Some user \<and> FTP_PASS cfg = Some pass
         \<and> FTP_TARGET_DIR cfg = Some target_dir
         \<and> host \<noteq> [] \<and> user \<noteq> [] \<and> pass \<noteq> [] \<and> target_dir \<noteq> []
         \<and> ftp_transfer env host user pass target_dir file_path name st = (Inl e, st') \<longrightarrow>
         upload_final_image_to_ftp cfg env file_path name st = (Returns (False, e), st'))"
proof (intro conjI)
  show "\<exists>ok msg st'. upload_final_image_to_ftp cfg env file_path name st = (Returns (ok, msg), st')"
    by (auto simp: upload_final_image_to_ftp_def split: option.split prod.split sum.split)
  show "\<not> (present (FTP_HOST cfg) \<and> present (FTP_USER cfg) \<and> present (FTP_PASS cfg)
           \<and> present (FTP_TARGET_DIR cfg)) \<longrightarrow>
        upload_final_image_to_ftp cfg env file_path name st
          = (Returns (False, ''FTP configuration is missing. Please check your .env file''), st)"
    by (auto simp: upload_final_image_to_ftp_def present_def split: option.splits)
  show "\<forall>host user pass target_dir e st'.
         FTP_HOST cfg = Some host \<and> FTP_USER cfg = Some user \<and> FTP_PASS cfg = Some pass
         \<and> FTP_TARGET_DIR cfg = Some target_dir
         \<and> host \<noteq> [] \<and> user \<noteq> [] \<and> pass \<noteq> [] \<and> target_dir \<noteq> []
         \<and> ftp_transfer env host user pass target_dir file_path name st = (Inl e, st') \<longrightarrow>
         upload_final_image_to_ftp cfg env file_path name st = (Returns (False, e), st')"
    by (simp add: upload_final_image_to_ftp_def)
qed

theorem publish_never_raises_witness:
  "upload_final_image_to_ftp (full_config\<lparr>FTP_PASS := None\<rparr>) good_ftp
       ''final_images/a.png'' ''a.png'' idle
     = (Returns (False, ''FTP configuration is missing. Please check your .env file''), idle)
   \<and> upload_final_image_to_ftp full_config (good_ftp\<lparr>ftp_cwd := (\<lambda>d. Some no_such_dir)\<rparr>)
       ''final_images/a.png'' ''a.png'' idle
     = (Returns (False, no_such_dir),
        idle\<lparr>ftp_log := [FtpLogin ''ftp.example.org'' ''publisher'' ''secret'', FtpCwd ''/public'']\<rparr>)"
proof
  have "\<not> (present (FTP_HOST (full_config\<lparr>FTP_PASS := None\<rparr>))
        \<and> present (FTP_USER (full_config\<lparr>FTP_PASS := None\<rparr>))
        \<and> present (FTP_PASS (full_config\<lparr>FTP_PASS := None\<rparr>))
        \<and> present (FTP_TARGET_DIR (full_config\<lparr>FTP_PASS := None\<rparr>)))"
    by (simp add: present_def)
  with publish_never_raises[of "full_config\<lparr>FTP_PASS := None\<rparr>" good_ftp
      "''final_images/a.png''" "''a.png''" idle]
  show "upload_final_image_to_ftp (full_config\<lparr>FTP_PASS := None\<rparr>) good_ftp
       ''final_images/a.png'' ''a.png'' idle = (Returns (False, ''FTP configuration is missing. Please check your .env file''), idle)"
    by blast
next
  have "FTP_HOST full_config = Some ''ftp.example.org'' \<and> FTP_USER full_config = Some ''publisher''
      \<and> FTP_PASS full_config = Some ''secret'' \<and> FTP_TARGET_DIR full_config = Some ''/public''
      \<and> ''ftp.example.org'' \<noteq> [] \<and> ''publisher'' \<noteq> [] \<and> ''secret'' \<noteq> [] \<and> ''/public'' \<noteq> []"
    by (simp add: full_config_def)
  with publish_never_raises[of full_config "good_ftp\<lparr>ftp_cwd := (\<lambda>d. Some no_such_dir)\<rparr>"
      "''final_images/a.png''" "''a.png''" idle] ftp_transfer_cwd_fails
  show "upload_final_image_to_ftp full_config (good_ftp\<lparr>ftp_cwd := (\<lambda>d. Some no_such_dir)\<rparr>)
       ''final_images/a.png'' ''a.png'' idle
     = (Returns (False, no_such_dir),
        idle\<lparr>ftp_log := [FtpLogin ''ftp.example.org'' ''publisher'' ''secret'', FtpCwd ''/public'']\<rparr>)"
    by blast
qed

section \<open>Properties of the request handler\<close>

lemma merge_images_composited:
  assumes "composited w"
  shows "merge_images w st =
     catch_all w
       (case upload_image_to_comfyui (post_upload_image w) (merged_path w) (merged_filename w) of
          Inl e \<Rightarrow> (Raises e, st)
        | Inr upload_response \<Rightarrow> after_upload w (now w) upload_response st)"
proof -
  from assms obtain fg bg fg_image bg_image fg_no_bg merged where h:
    "files w ''foreground_file'' = Some fg" "files w ''background_file'' = Some bg"
    "upload_filename fg \<noteq> []" "upload_filename bg \<noteq> []"
    "image_open (lib w) (upload_stream fg) = Inr fg_image"
    "image_open (lib w) (upload_stream bg) = Inr bg_image"
    "remove_background (lib w) fg_image = Inr fg_no_bg"
    "composite (lib w) fg_no_bg bg_image = Inr merged"
    "save_png (lib w) (merged_path w) merged = None"
    unfolding composited_def by blast
  have "merge_try w fg bg st =
       (case upload_image_to_comfyui (post_upload_image w) (merged_path w) (merged_filename w) of
          Inl e \<Rightarrow> (Raises e, st)
        | Inr upload_response \<Rightarrow> after_upload w (now w) upload_response st)"
    by (simp add: merge_try_def h)
  then show ?thesis by (simp add: merge_images_def h)
qed

lemma py_in_JObj_Some: "map_of kvs k = Some v \<Longrightarrow> py_in k (JObj kvs) = Inr True"
  by simp

lemma truthy_JObj_Some: "map_of kvs k = Some v \<Longrightarrow> truthy (JObj kvs)"
  by (cases kvs) auto

lemma merge_images_job_prepared:
  assumes "job_prepared w workflow2"
  shows "merge_images w st =
     catch_all w
       (case queue_prompt (post_prompt w) workflow2 (uuid4 w) of
          Inl e \<Rightarrow> (Raises e, st)
        | Inr queue_response \<Rightarrow> after_queue w queue_response (uuid4 w) st)"
proof -
  from assms obtain comfyui_filename prompt_workflow workflow1 kvs where h:
    "composited w"
    "upload_image_to_comfyui (post_upload_image w) (merged_path w) (merged_filename w) = Inr (JObj kvs)"
    "map_of kvs ''name'' = Some comfyui_filename"
    "load_workflow w WORKFLOW_API_JSON_PATH = Inr prompt_workflow"
    "set_node_input prompt_workflow LOAD_IMAGE_NODE_ID ''image'' comfyui_filename = Inr workflow1"
    "set_node_input workflow1 SAVE_IMAGE_NODE_ID ''filename_prefix'' (JStr (''checkint_'' @ now w))
       = Inr workflow2"
    unfolding job_prepared_def upload_accepted_def by blast
  have t: "truthy (JObj kvs)" using h(3) by (rule truthy_JObj_Some)
  have "after_upload w (now w) (JObj kvs) st =
       (case queue_prompt (post_prompt w) workflow2 (uuid4 w) of
          Inl e \<Rightarrow> (Raises e, st)
        | Inr queue_response \<Rightarrow> after_queue w queue_response (uuid4 w) st)"
    unfolding after_upload_def using t h(3,4,5,6) by simp
  then show ?thesis by (simp add: merge_images_composited[OF h(1)] h(2))
qed

lemma merge_images_job_queued:
  assumes "job_queued w prompt_id"
  shows "merge_images w st =
     catch_all w
       (case get_final_image_path_from_websocket (websocket w) prompt_id (uuid4 w) st of
          (Raises e, st') \<Rightarrow> (Raises e, st')
        | (Blocks, st') \<Rightarrow> (Blocks, st')
        | (Returns final_filename, st') \<Rightarrow> after_watch w final_filename st')"
proof -
  from assms obtain workflow2 kvs where h:
    "job_prepared w workflow2"
    "queue_prompt (post_prompt w) workflow2 (uuid4 w) = Inr (JObj kvs)"
    "map_of kvs ''prompt_id'' = Some prompt_id"
    unfolding job_queued_def by blast
  have t: "truthy (JObj kvs)" using h(3) by (rule truthy_JObj_Some)
  have "after_queue w (JObj kvs) (uuid4 w) st =
       (case get_final_image_path_from_websocket (websocket w) prompt_id (uuid4 w) st of
          (Raises e, st') \<Rightarrow> (Raises e, st')
        | (Blocks, st') \<Rightarrow> (Blocks, st')
        | (Returns final_filename, st') \<Rightarrow> after_watch w final_filename st')"
    unfolding after_queue_def using t h(3) by simp
  then show ?thesis by (simp add: merge_images_job_prepared[OF h(1)] h(2))
qed

lemma merge_images_generated:
  assumes "generated w st name st1"
  shows "merge_images w st = catch_all w (after_watch w (Some name) st1)"
proof -
  from assms obtain prompt_id where h:
    "job_queued w prompt_id"
    "get_final_image_path_from_websocket (websocket w) prompt_id (uuid4 w) st
       = (Returns (Some name), st1)"
    unfolding generated_def by blast
  show ?thesis by (simp add: merge_images_job_queued[OF h(1)] h(2))
qed

lemma after_upload_field_missing:
  assumes "field_missing ''name'' r"
  shows "after_upload w timestamp r st
         = (Returns (500, error_body ''Failed to upload merge image to ComfyUI''), st)"
  using assms by (cases r) (auto simp: field_missing_def after_upload_def)

lemma after_upload_field_unreadable:
  assumes "field_unreadable ''name'' r"
  shows "after_upload w timestamp r st = (Raises TypeError, st)"
  using assms by (cases r) (auto simp: field_unreadable_def after_upload_def)

lemma after_queue_field_missing:
  assumes "field_missing ''prompt_id'' q"
  shows "after_queue w q client_id st
         = (Returns (500, error_body ''Failed to queue prompt in ComfyUI''), st)"
  using assms by (cases q) (auto simp: field_missing_def after_queue_def)

lemma after_queue_field_unreadable:
  assumes "field_unreadable ''prompt_id'' q"
  shows "after_queue w q client_id st = (Raises TypeError, st)"
  using assms by (cases q) (auto simp: field_unreadable_def after_queue_def)

lemma field_classification:
  "field_missing k r \<or> field_unreadable k r \<or> (\<exists>kvs v. r = JObj kvs \<and> map_of kvs k = Some v)"
  by (cases r) (auto simp: field_missing_def field_unreadable_def)

text \<open>
  Claim C7, as amended. When the composite has been produced and saved, and the asset
  upload answers with \<open>None\<close> or another false value, or with an object, list or str
  that does not contain \<open>name\<close>, the handler answers 500 with the error message
  "Failed to upload merge image to ComfyUI". When the job has been prepared and the job
  submission answers so for \<open>prompt_id\<close>, the handler answers 500 with the error message
  "Failed to queue prompt in ComfyUI". An answer that is a number other than zero or
  \<open>true\<close>, or a list or str that contains the field's name, makes the handler raise
  \<open>TypeError\<close> and answer with the blanket 500. Every answer is of one of these kinds or
  is an object that has the field. In all these cases the state is left as it was.
\<close>

theorem missing_field_gives_500:
  "(composited w
     \<and> upload_image_to_comfyui (post_upload_image w) (merged_path w) (merged_filename w) = Inr r
     \<and> field_missing ''name'' r \<longrightarrow>
     merge_images w st
       = (Returns (500, JObj [(''error'', JStr ''Failed to upload merge image to ComfyUI'')]), st))
   \<and> (composited w
     \<and> upload_image_to_comfyui (post_upload_image w) (merged_path w) (merged_filename w) = Inr r
     \<and> field_unreadable ''name'' r \<longrightarrow>
     merge_images w st
       = (Returns (500, JObj [(''error'', JStr ''An internal server error occurred ''),
                              (''details'', JStr (interpreter_text w TypeError))]), st))
   \<and> (job_prepared w workflow2
     \<and> queue_prompt (post_prompt w) workflow2 (uuid4 w) = Inr q
     \<and> field_missing ''prompt_id'' q \<longrightarrow>
     merge_images w st
       = (Returns (500, JObj [(''error'', JStr ''Failed to queue prompt in ComfyUI'')]), st))
   \<and> (job_prepared w workflow2
     \<and> queue_prompt (post_prompt w) workflow2 (uuid4 w) = Inr q
     \<and> field_unreadable ''prompt_id'' q \<longrightarrow>
     merge_images w st
       = (Returns (500, JObj [(''error'', JStr ''An internal server error occurred ''),
                              (''details'', JStr (interpreter_text w TypeError))]), st))
   \<and> (field_missing k a \<or> field_unreadable k a
        \<or> (\<exists>kvs v. a = JObj kvs \<and> map_of kvs k = Some v))"
proof (intro conjI impI)
  assume a: "composited w
     \<and> upload_image_to_comfyui (post_upload_image w) (merged_path w) (merged_filename w) = Inr r
     \<and> field_missing ''name'' r"
  then have "after_upload w (now w) r st
      = (Returns (500, error_body ''Failed to upload merge image to ComfyUI''), st)"
    by (simp add: after_upload_field_missing)
  with a show "merge_images w st
       = (Returns (500, JObj [(''error'', JStr ''Failed to upload merge image to ComfyUI'')]), st)"
    by (simp add: merge_images_composited catch_all_def error_body_def)
next
  assume a: "composited w
     \<and> upload_image_to_comfyui (post_upload_image w) (merged_path w) (merged_filename w) = Inr r
     \<and> field_unreadable ''name'' r"
  then have "after_upload w (now w) r st = (Raises TypeError, st)"
    by (simp add: after_upload_field_unreadable)
  with a show "merge_images w st
       = (Returns (500, JObj [(''error'', JStr ''An internal server error occurred ''),
                              (''details'', JStr (interpreter_text w TypeError))]), st)"
    by (simp add: merge_images_composited catch_all_def str_exn_def)
next
  assume a: "job_prepared w workflow2
     \<and> queue_prompt (post_prompt w) workflow2 (uuid4 w) = Inr q
     \<and> field_missing ''prompt_id'' q"
  then have "after_queue w q (uuid4 w) st
      = (Returns (500, error_body ''Failed to queue prompt in ComfyUI''), st)"
    by (simp add: after_queue_field_missing)
  with a show "merge_images w st
       = (Returns (500, JObj [(''error'', JStr ''Failed to queue prompt in ComfyUI'')]), st)"
    using merge_images_job_prepared[of w workflow2 st] by (simp add: catch_all_def error_body_def)
next
  assume a: "job_prepared w workflow2
     \<and> queue_prompt (post_prompt w) workflow2 (uuid4 w) = Inr q
     \<and> field_unreadable ''prompt_id'' q"
  then have "after_queue w q (uuid4 w) st = (Raises TypeError, st)"
    by (simp add: after_queue_field_unreadable)
  with a show "merge_images w st
       = (Returns (500, JObj [(''error'', JStr ''An internal server error occurred ''),
                              (''details'', JStr (interpreter_text w TypeError))]), st)"
    using merge_images_job_prepared[of w workflow2 st] by (simp add: catch_all_def str_exn_def)
next
  show "field_missing k a \<or> field_unreadable k a
        \<or> (\<exists>kvs v. a = JObj kvs \<and> map_of kvs k = Some v)"
    by (rule field_classification)
qed

text \<open>
  Claim C2. When every stage up to the watcher has succeeded, the watcher has returned a
  file name and the publisher has returned \<open>True\<close>: with the public URL base set, the
  handler answers 200 and \<open>final_image_url\<close> is the base followed by the file name; with
  the base absent (not set, or empty) it answers 500 with a body of its own, which is
  not the body of a publish failure.
\<close>

theorem full_success_gives_url:
  assumes "generated w st name st1"
    and "upload_final_image_to_ftp (settings w) (ftp w) (os_path_join FINAL_IMAGES_DIR name) name st1
           = (Returns (True, message), st2)"
  shows "(\<forall>base. BASE_PUBLIC_URL (settings w) = Some base \<and> base \<noteq> [] \<longrightarrow>
            merge_images w st
              = (Returns (200, JObj
                   [(''message'', JStr ''Workflow complete. File uploaded successfully.''),
                    (''final_image_url'', JStr (base @ name))]), st2))
       \<and> (\<not> present (BASE_PUBLIC_URL (settings w)) \<longrightarrow>
            merge_images w st
              = (Returns (500, JObj [(''error'', JStr ''BASE_PUBLIC_URL is not set in .env file'')]), st2)
            \<and> (\<forall>name' message'. JObj [(''error'', JStr ''BASE_PUBLIC_URL is not set in .env file'')]
                   \<noteq> publish_failure_body name' message'))"
proof -
  have n: "name \<noteq> []" using assms(1) by (auto simp: generated_def)
  have m: "merge_images w st = catch_all w (after_watch w (Some name) st1)"
    using assms(1) by (rule merge_images_generated)
  show ?thesis
    unfolding m after_watch_def using n assms(2)
    by (auto simp: catch_all_def present_def error_body_def publish_failure_body_def
        split: option.splits)
qed

subsection \<open>The example request\<close>

lemma composite_example: "composite plain_lib portrait backdrop = Inr (backdrop\<lparr>im_pixels := ''pasted''\<rparr>)"
proof -
  have "new_foreground_height 600 800 400 = 533" by code_simp
  then show ?thesis
    by (simp add: composite_def resized_foreground_def plain_lib_def portrait_def backdrop_def)
qed

lemma composited_example: "composited example_world"
  unfolding composited_def
  by (rule exI[of _ "\<lparr>upload_filename = ''person.png'', upload_stream = ''FG''\<rparr>"],
      rule exI[of _ "\<lparr>upload_filename = ''beach.png'', upload_stream = ''BG''\<rparr>"],
      rule exI[of _ portrait], rule exI[of _ backdrop], rule exI[of _ portrait],
      rule exI[of _ "backdrop\<lparr>im_pixels := ''pasted''\<rparr>"])
     (simp add: example_world_def composite_example, simp add: plain_lib_def)

lemma composited_cong:
  "files w' = files w \<Longrightarrow> lib w' = lib w \<Longrightarrow> now w' = now w \<Longrightarrow> composited w' = composited w"
  by (simp add: composited_def merged_path_def merged_filename_def)

lemma upload_accepted_example:
  "upload_accepted example_world (JStr ''merged_result_20240101_120000000000.png'')"
  unfolding upload_accepted_def
  by (simp add: composited_example)
     (simp add: example_world_def upload_image_to_comfyui_def merged_filename_def)

lemma job_prepared_example: "job_prepared example_world example_workflow2"
  unfolding job_prepared_def
  by (rule exI[of _ "JStr ''merged_result_20240101_120000000000.png''"],
      rule exI[of _ workflow_template],
      simp add: upload_accepted_example)
     (simp add: example_world_def workflow_template_def set_node_input_def example_workflow2_def
        LOAD_IMAGE_NODE_ID_def SAVE_IMAGE_NODE_ID_def)

lemma job_queued_example: "job_queued example_world job1"
  unfolding job_queued_def
  by (rule exI[of _ example_workflow2], simp add: job_prepared_example)
     (simp add: example_world_def queue_prompt_def job1_def)

lemma watch_example:
  "get_final_image_path_from_websocket (websocket example_world) job1 (uuid4 example_world) idle
   = (Returns (Some ''a.png''), stored)"
proof -
  have i: "\<forall>s' \<in> set [quiet_step (progress_event ''job-1'')].
             \<exists>fr'. recv s' = Inr fr' \<and> insignificant job1 fr'"
    by (simp add: quiet_step_def insignificant_progress)
  have "receive_loop job1 ([quiet_step (progress_event ''job-1'')]
           @ [serving_step (executed_event ''job-1'' [image_descriptor ''a.png''])])
           (idle\<lparr>ws_open := True\<rparr>)
        = receive_loop job1 [serving_step (executed_event ''job-1'' [image_descriptor ''a.png''])]
           (idle\<lparr>ws_open := True\<rparr>)"
    using i by (rule receive_loop_skip_all)
  then show ?thesis
    using run_returns_name
    by (simp add: get_final_image_path_from_websocket_def example_world_def open_env_def stored_def
        split: prod.splits if_splits)
qed

lemma generated_example: "generated example_world idle ''a.png'' stored"
  unfolding generated_def
  by (rule exI[of _ job1]) (simp add: job_queued_example watch_example)

lemma upload_accepted_cong:
  "files w' = files w \<Longrightarrow> lib w' = lib w \<Longrightarrow> now w' = now w
   \<Longrightarrow> post_upload_image w' = post_upload_image w
   \<Longrightarrow> upload_accepted w' c = upload_accepted w c"
  by (simp add: upload_accepted_def composited_cong[of w' w] merged_path_def merged_filename_def)

lemma job_prepared_cong:
  "files w' = files w \<Longrightarrow> lib w' = lib w \<Longrightarrow> now w' = now w
   \<Longrightarrow> post_upload_image w' = post_upload_image w \<Longrightarrow> load_workflow w' = load_workflow w
   \<Longrightarrow> job_prepared w' workflow = job_prepared w workflow"
  by (simp add: job_prepared_def upload_accepted_cong[of w' w])

lemma job_queued_cong:
  "files w' = files w \<Longrightarrow> lib w' = lib w \<Longrightarrow> now w' = now w
   \<Longrightarrow> post_upload_image w' = post_upload_image w \<Longrightarrow> load_workflow w' = load_workflow w
   \<Longrightarrow> post_prompt w' = post_prompt w \<Longrightarrow> uuid4 w' = uuid4 w
   \<Longrightarrow> job_queued w' p = job_queued w p"
  by (simp add: job_queued_def job_prepared_cong[of w' w])

lemma generated_cong:
  "files w' = files w \<Longrightarrow> lib w' = lib w \<Longrightarrow> now w' = now w
   \<Longrightarrow> post_upload_image w' = post_upload_image w \<Longrightarrow> load_workflow w' = load_workflow w
   \<Longrightarrow> post_prompt w' = post_prompt w \<Longrightarrow> uuid4 w' = uuid4 w
   \<Longrightarrow> websocket w' = websocket w
   \<Longrightarrow> generated w' st name st1 = generated w st name st1"
  by (simp add: generated_def job_queued_cong[of w' w])

theorem missing_field_gives_500_witness:
  "merge_images (example_world\<lparr>post_upload_image := (\<lambda>p n. JsonBody (JObj [(''error'', JStr ''disk full'')]))\<rparr>) idle
     = (Returns (500, JObj [(''error'', JStr ''Failed to upload merge image to ComfyUI'')]), idle)
   \<and> merge_images (example_world\<lparr>post_prompt := (\<lambda>workflow c. PostRequestException ''400 Bad Request'')\<rparr>) idle
     = (Returns (500, JObj [(''error'', JStr ''Failed to queue prompt in ComfyUI'')]), idle)
   \<and> merge_images (example_world\<lparr>post_prompt := (\<lambda>workflow c. JsonBody (JArr [JStr ''prompt_id'']))\<rparr>) idle
     = (Returns (500, JObj [(''error'', JStr ''An internal server error occurred ''),
                            (''details'', JStr ''exception'')]), idle)"
proof (intro conjI)
  let ?w = "example_world\<lparr>post_upload_image := (\<lambda>p n. JsonBody (JObj [(''error'', JStr ''disk full'')]))\<rparr>"
  have "composited ?w" using composited_example composited_cong[of ?w example_world] by simp
  moreover have "upload_image_to_comfyui (post_upload_image ?w) (merged_path ?w) (merged_filename ?w)
      = Inr (JObj [(''error'', JStr ''disk full'')])"
    by (simp add: upload_image_to_comfyui_def)
  moreover have "field_missing ''name'' (JObj [(''error'', JStr ''disk full'')])"
    by (simp add: field_missing_def)
  ultimately show "merge_images ?w idle
     = (Returns (500, JObj [(''error'', JStr ''Failed to upload merge image to ComfyUI'')]), idle)"
    using missing_field_gives_500[of ?w "JObj [(''error'', JStr ''disk full'')]" idle] by blast
next
  let ?w = "example_world\<lparr>post_prompt := (\<lambda>workflow c. PostRequestException ''400 Bad Request'')\<rparr>"
  have "job_prepared ?w example_workflow2"
    using job_prepared_example job_prepared_cong[of ?w example_world] by simp
  moreover have "queue_prompt (post_prompt ?w) example_workflow2 (uuid4 ?w) = Inr JNull"
    by (simp add: queue_prompt_def)
  moreover have "field_missing ''prompt_id'' JNull"
    by (simp add: field_missing_def)
  ultimately show "merge_images ?w idle
     = (Returns (500, JObj [(''error'', JStr ''Failed to queue prompt in ComfyUI'')]), idle)"
    using missing_field_gives_500[of ?w _ idle example_workflow2 JNull] by blast
next
  let ?w = "example_world\<lparr>post_prompt := (\<lambda>workflow c. JsonBody (JArr [JStr ''prompt_id'']))\<rparr>"
  have "job_prepared ?w example_workflow2"
    using job_prepared_example job_prepared_cong[of ?w example_world] by simp
  moreover have "queue_prompt (post_prompt ?w) example_workflow2 (uuid4 ?w)
      = Inr (JArr [JStr ''prompt_id''])"
    by (simp add: queue_prompt_def)
  moreover have "field_unreadable ''prompt_id'' (JArr [JStr ''prompt_id''])"
    by (simp add: field_unreadable_def)
  moreover have "interpreter_text ?w TypeError = ''exception''"
    by (simp add: example_world_def)
  ultimately show "merge_images ?w idle
     = (Returns (500, JObj [(''error'', JStr ''An internal server error occurred ''),
                            (''details'', JStr ''exception'')]), idle)"
    using missing_field_gives_500[of ?w _ idle example_workflow2 "JArr [JStr ''prompt_id'']"]
    by simp
qed

text \<open>
  Claim C7 as stated fails: the asset-upload answer \<open>5\<close> has no \<open>name\<close> field, and the
  answer to the request is the blanket 500, not "Failed to upload merge image": the
  test \<open>'name' not in upload_response\<close> raises \<open>TypeError\<close>.
\<close>

theorem numeric_answer_counterexample:
  "upload_image_to_comfyui (post_upload_image numeric_upload_world)
       (merged_path numeric_upload_world) (merged_filename numeric_upload_world) = Inr (JInt 5)
   \<and> getitem_str (JInt 5) ''name'' = Inl TypeError
   \<and> merge_images numeric_upload_world idle
     = (Returns (500, JObj [(''error'', JStr ''An internal server error occurred ''),
                            (''details'', JStr ''exception'')]), idle)"
proof -
  have c: "composited numeric_upload_world"
    using composited_example composited_cong[of numeric_upload_world example_world]
    by (simp add: numeric_upload_world_def)
  have u: "upload_image_to_comfyui (post_upload_image numeric_upload_world)
       (merged_path numeric_upload_world) (merged_filename numeric_upload_world) = Inr (JInt 5)"
    by (simp add: upload_image_to_comfyui_def numeric_upload_world_def)
  have a: "after_upload numeric_upload_world (now numeric_upload_world) (JInt 5) idle
      = (Raises TypeError, idle)"
    by (simp add: after_upload_def)
  have t: "interpreter_text numeric_upload_world TypeError = ''exception''"
    by (simp add: numeric_upload_world_def example_world_def)
  show ?thesis
    by (simp add: merge_images_composited[OF c] u a catch_all_def str_exn_def t)
qed

lemma publish_example:
  "upload_final_image_to_ftp full_config good_ftp (os_path_join FINAL_IMAGES_DIR ''a.png'') ''a.png'' stored
   = (Returns (True, ''File '' @ [CHR 0x27] @ ''a.png'' @ [CHR 0x27] @ '' uploaded to FTP successfully!''),
      stored\<lparr>ftp_log := [FtpLogin ''ftp.example.org'' ''publisher'' ''secret'', FtpCwd ''/public'',
                           FtpStor ''STOR a.png'', FtpQuit]\<rparr>)"
  by (simp add: upload_final_image_to_ftp_def full_config_def ftp_transfer_def good_ftp_def
      stored_def idle_def)

theorem full_success_gives_url_witness:
  "merge_images example_world idle
     = (Returns (200, JObj
          [(''message'', JStr ''Workflow complete. File uploaded successfully.''),
           (''final_image_url'', JStr ''https://example.org/public/a.png'')]),
        stored\<lparr>ftp_log := [FtpLogin ''ftp.example.org'' ''publisher'' ''secret'', FtpCwd ''/public'',
                             FtpStor ''STOR a.png'', FtpQuit]\<rparr>)
   \<and> merge_images (example_world\<lparr>settings := full_config\<lparr>BASE_PUBLIC_URL := None\<rparr>\<rparr>) idle
     = (Returns (500, JObj [(''error'', JStr ''BASE_PUBLIC_URL is not set in .env file'')]),
        stored\<lparr>ftp_log := [FtpLogin ''ftp.example.org'' ''publisher'' ''secret'', FtpCwd ''/public'',
                             FtpStor ''STOR a.png'', FtpQuit]\<rparr>)"
proof
  have p: "upload_final_image_to_ftp (settings example_world) (ftp example_world)
      (os_path_join FINAL_IMAGES_DIR ''a.png'') ''a.png'' stored
    = (Returns (True, ''File '' @ [CHR 0x27] @ ''a.png'' @ [CHR 0x27] @ '' uploaded to FTP successfully!''),
      stored\<lparr>ftp_log := [FtpLogin ''ftp.example.org'' ''publisher'' ''secret'', FtpCwd ''/public'',
                           FtpStor ''STOR a.png'', FtpQuit]\<rparr>)"
    using publish_example by (simp add: example_world_def)
  have b: "BASE_PUBLIC_URL (settings example_world) = Some ''https://example.org/public/''
      \<and> ''https://example.org/public/'' \<noteq> []"
    by (simp add: example_world_def full_config_def)
  from full_success_gives_url[OF generated_example p] b
  show "merge_images example_world idle
     = (Returns (200, JObj
          [(''message'', JStr ''Workflow complete. File uploaded successfully.''),
           (''final_image_url'', JStr ''https://example.org/public/a.png'')]),
        stored\<lparr>ftp_log := [FtpLogin ''ftp.example.org'' ''publisher'' ''secret'', FtpCwd ''/public'',
                             FtpStor ''STOR a.png'', FtpQuit]\<rparr>)"
    by simp
next
  let ?w = "example_world\<lparr>settings := full_config\<lparr>BASE_PUBLIC_URL := None\<rparr>\<rparr>"
  have g: "generated ?w idle ''a.png'' stored"
    using generated_example generated_cong[of ?w example_world] by simp
  have p: "upload_final_image_to_ftp (settings ?w) (ftp ?w)
      (os_path_join FINAL_IMAGES_DIR ''a.png'') ''a.png'' stored
    = (Returns (True, ''File '' @ [CHR 0x27] @ ''a.png'' @ [CHR 0x27] @ '' uploaded to FTP successfully!''),
      stored\<lparr>ftp_log := [FtpLogin ''ftp.example.org'' ''publisher'' ''secret'', FtpCwd ''/public'',
                           FtpStor ''STOR a.png'', FtpQuit]\<rparr>)"
    by (simp add: upload_final_image_to_ftp_def full_config_def ftp_transfer_def good_ftp_def
      stored_def idle_def example_world_def)
  have b: "\<not> present (BASE_PUBLIC_URL (settings ?w))"
    by (simp add: present_def)
  from full_success_gives_url[OF g p] b
  show "merge_images ?w idle
     = (Returns (500, JObj [(''error'', JStr ''BASE_PUBLIC_URL is not set in .env file'')]),
        stored\<lparr>ftp_log := [FtpLogin ''ftp.example.org'' ''publisher'' ''secret'', FtpCwd ''/public'',
                             FtpStor ''STOR a.png'', FtpQuit]\<rparr>)"
    by blast
qed

subsection \<open>The final image after a failed publish\<close>

lemma receive_pass_stores_aux:
  "fst (receive_pass prompt_id s st) = Some (Returns (Some name)) \<longrightarrow>
     (\<exists>c. c \<noteq> [] \<and> disk (snd (receive_pass prompt_id s st)) (os_path_join FINAL_IMAGES_DIR name)
                       = Some c)"
  unfolding receive_pass_def Let_def
  by (simp split: sum.split frame.split option.split bool.split json.split)

lemma receive_pass_stores:
  assumes "receive_pass prompt_id s st = (Some (Returns (Some name)), st')"
  shows "\<exists>c. c \<noteq> [] \<and> disk st' (os_path_join FINAL_IMAGES_DIR name) = Some c"
  using assms receive_pass_stores_aux[of prompt_id s st name] by simp

lemma receive_loop_stores:
  "receive_loop prompt_id ss st = (Returns (Some name), st') \<Longrightarrow>
     \<exists>c. c \<noteq> [] \<and> disk st' (os_path_join FINAL_IMAGES_DIR name) = Some c"
proof (induction ss arbitrary: st)
  case Nil
  then show ?case by simp
next
  case (Cons s ss)
  obtain o1 st1 where p: "receive_pass prompt_id s st = (o1, st1)"
    by (cases "receive_pass prompt_id s st")
  show ?case
  proof (cases o1)
    case None
    with p Cons.prems have "receive_loop prompt_id ss st1 = (Returns (Some name), st')" by simp
    then show ?thesis by (rule Cons.IH)
  next
    case (Some out)
    with p Cons.prems have "receive_pass prompt_id s st = (Some (Returns (Some name)), st')" by simp
    then show ?thesis by (rule receive_pass_stores)
  qed
qed

lemma watcher_stores:
  assumes "get_final_image_path_from_websocket env prompt_id client_id st = (Returns (Some name), st')"
  shows "\<exists>c. c \<noteq> [] \<and> disk st' (os_path_join FINAL_IMAGES_DIR name) = Some c"
proof (cases "create_connection env (ws_url client_id)")
  case (Some e)
  with assms show ?thesis by (simp add: get_final_image_path_from_websocket_def)
next
  case None
  obtain out st1 where l: "receive_loop prompt_id (steps env) (st\<lparr>ws_open := True\<rparr>) = (out, st1)"
    by (cases "receive_loop prompt_id (steps env) (st\<lparr>ws_open := True\<rparr>)")
  from watcher_connected[OF None l] assms
  have "out = Returns (Some name)" "st' = st1\<lparr>ws_open := False\<rparr>"
    by (auto split: if_splits)
  with l receive_loop_stores[of prompt_id "steps env" "st\<lparr>ws_open := True\<rparr>" name st1]
  show ?thesis by simp
qed

lemma ftp_transfer_disk_aux:
  "disk (snd (ftp_transfer env host user pass target_dir file_path name st)) = disk st"
  by (simp add: ftp_transfer_def Let_def split: option.split)

lemma ftp_transfer_disk:
  "ftp_transfer env host user pass target_dir file_path name st = (r, st') \<Longrightarrow>
     disk st' = disk st"
  using ftp_transfer_disk_aux[of env host user pass target_dir file_path name st] by simp

lemma publish_disk:
  assumes "upload_final_image_to_ftp c env file_path name st = (out, st')"
  shows "disk st' = disk st"
proof -
  have "disk (snd (upload_final_image_to_ftp c env file_path name st)) = disk st"
    by (auto simp: upload_final_image_to_ftp_def ftp_transfer_disk
        split: option.split prod.split sum.split)
  with assms show ?thesis by simp
qed

text \<open>
  Claim C6, as amended. When every stage up to the watcher has succeeded, the watcher
  has returned a file name and the publisher has returned \<open>False\<close>, the handler answers
  500 with a body that holds the file name under \<open>final_image_filename\<close> and the
  publisher's message under \<open>ftp_error_details\<close>. The file the watcher wrote at
  \<open>os.path.join(FINAL_IMAGES_DIR, name)\<close> is still there with its content: the publisher
  and the handler leave the files as the watcher left them. When the name is a plain
  file name (not empty, without a slash, neither \<open>.\<close> nor \<open>..\<close>),
  \<open>GET /final_image/<name>\<close> answers 200 with that content.
\<close>

theorem publish_failure_keeps_final_image:
  assumes "generated w st name st1"
    and "upload_final_image_to_ftp (settings w) (ftp w) (os_path_join FINAL_IMAGES_DIR name) name st1
           = (Returns (False, message), st2)"
  shows "merge_images w st = (Returns (500, publish_failure_body name message), st2)
       \<and> getitem_str (publish_failure_body name message) ''final_image_filename'' = Inr (JStr name)
       \<and> getitem_str (publish_failure_body name message) ''ftp_error_details'' = Inr (JStr message)
       \<and> (\<exists>content. content \<noteq> []
             \<and> disk st1 (os_path_join FINAL_IMAGES_DIR name) = Some content
             \<and> disk st2 = disk st1
             \<and> (plain_name name \<longrightarrow> get_final_image st2 name = (200, Some content)))"
proof -
  from assms(1) obtain prompt_id where g:
    "get_final_image_path_from_websocket (websocket w) prompt_id (uuid4 w) st
       = (Returns (Some name), st1)" "name \<noteq> []"
    by (auto simp: generated_def)
  from watcher_stores[OF g(1)] obtain content where c:
    "content \<noteq> []" "disk st1 (os_path_join FINAL_IMAGES_DIR name) = Some content" by blast
  have f: "disk st2 = disk st1"
    using assms(2) by (rule publish_disk)
  have m: "merge_images w st = catch_all w (after_watch w (Some name) st1)"
    using assms(1) by (rule merge_images_generated)
  have 1: "merge_images w st = (Returns (500, publish_failure_body name message), st2)"
    unfolding m after_watch_def using g(2) assms(2) by (simp add: catch_all_def)
  have 2: "plain_name name \<longrightarrow> get_final_image st2 name = (200, Some content)"
    by (simp add: get_final_image_def plain_name_def f c(2))
  show ?thesis using 1 2 c f by (simp add: publish_failure_body_def)
qed

theorem publish_failure_keeps_final_image_witness:
  "merge_images (example_world\<lparr>ftp := good_ftp\<lparr>ftp_cwd := (\<lambda>d. Some no_such_dir)\<rparr>\<rparr>) idle
     = (Returns (500, publish_failure_body ''a.png'' no_such_dir),
        stored\<lparr>ftp_log := [FtpLogin ''ftp.example.org'' ''publisher'' ''secret'', FtpCwd ''/public'']\<rparr>)
   \<and> get_final_image
        (stored\<lparr>ftp_log := [FtpLogin ''ftp.example.org'' ''publisher'' ''secret'', FtpCwd ''/public'']\<rparr>)
        ''a.png'' = (200, Some ''PNG'')"
proof -
  let ?w = "example_world\<lparr>ftp := good_ftp\<lparr>ftp_cwd := (\<lambda>d. Some no_such_dir)\<rparr>\<rparr>"
  let ?st2 = "stored\<lparr>ftp_log := [FtpLogin ''ftp.example.org'' ''publisher'' ''secret'', FtpCwd ''/public'']\<rparr>"
  have g: "generated ?w idle ''a.png'' stored"
    using generated_example generated_cong[of ?w example_world] by simp
  have p: "upload_final_image_to_ftp (settings ?w) (ftp ?w)
      (os_path_join FINAL_IMAGES_DIR ''a.png'') ''a.png'' stored = (Returns (False, no_such_dir), ?st2)"
    by (simp add: upload_final_image_to_ftp_def full_config_def ftp_transfer_def good_ftp_def
      stored_def idle_def example_world_def)
  have s: "disk stored (os_path_join FINAL_IMAGES_DIR ''a.png'') = Some ''PNG''"
    by (simp add: stored_def final_image_path_example)
  have n: "plain_name ''a.png''" by (simp add: plain_name_def)
  from publish_failure_keeps_final_image[OF g p] s n show ?thesis
    by auto
qed

text \<open>
  Claim C6 as stated fails: when the generation service assigns the name \<open>/tmp/a.png\<close>
  the watcher writes the file to that path, outside the final image directory; the
  handler answers 500 with both fields, the file is still there, and
  \<open>GET /final_image//tmp/a.png\<close> is answered with 404.
\<close>

theorem absolute_name_counterexample:
  "merge_images absolute_name_world idle
     = (Returns (500, publish_failure_body ''/tmp/a.png'' no_such_dir),
        stored_outside\<lparr>ftp_log := [FtpLogin ''ftp.example.org'' ''publisher'' ''secret'',
                                     FtpCwd ''/public'']\<rparr>)
   \<and> disk (stored_outside\<lparr>ftp_log := [FtpLogin ''ftp.example.org'' ''publisher'' ''secret'',
                                      FtpCwd ''/public'']\<rparr>) ''/tmp/a.png'' = Some ''PNG''
   \<and> get_final_image
        (stored_outside\<lparr>ftp_log := [FtpLogin ''ftp.example.org'' ''publisher'' ''secret'',
                                      FtpCwd ''/public'']\<rparr>) ''/tmp/a.png'' = (404, None)"
proof -
  have j: "job_queued absolute_name_world job1"
    using job_queued_example job_queued_cong[of absolute_name_world example_world]
    by (simp add: absolute_name_world_def)
  have p: "os_path_join FINAL_IMAGES_DIR ''/tmp/a.png'' = ''/tmp/a.png''"
    by (simp add: os_path_join_def)
  have w: "get_final_image_path_from_websocket (websocket absolute_name_world) job1
       (uuid4 absolute_name_world) idle = (Returns (Some ''/tmp/a.png''), stored_outside)"
    by (simp add: absolute_name_world_def get_final_image_path_from_websocket_def open_env_def
        receive_pass_def Let_def serving_step_def executed_event_def is_executed_for_own_job
        output_images_executed_event image_descriptor_def get_image_from_comfyui_def p
        stored_outside_def)
  have g: "generated absolute_name_world idle ''/tmp/a.png'' stored_outside"
    unfolding generated_def by (rule exI[of _ job1]) (simp add: j w)
  have u: "upload_final_image_to_ftp (settings absolute_name_world) (ftp absolute_name_world)
      ''/tmp/a.png'' ''/tmp/a.png'' stored_outside
    = (Returns (False, no_such_dir),
       stored_outside\<lparr>ftp_log := [FtpLogin ''ftp.example.org'' ''publisher'' ''secret'',
                                    FtpCwd ''/public'']\<rparr>)"
    by (simp add: upload_final_image_to_ftp_def full_config_def ftp_transfer_def good_ftp_def
      stored_outside_def idle_def example_world_def absolute_name_world_def)
  have m: "merge_images absolute_name_world idle
     = (Returns (500, publish_failure_body ''/tmp/a.png'' no_such_dir),
        stored_outside\<lparr>ftp_log := [FtpLogin ''ftp.example.org'' ''publisher'' ''secret'',
                                     FtpCwd ''/public'']\<rparr>)"
    by (simp add: merge_images_generated[OF g] after_watch_def p u catch_all_def)
  show ?thesis
    by (simp add: m get_final_image_def) (simp add: stored_outside_def)
qed

subsection \<open>The size of the composite\<close>

text \<open>
  Claim C9. The composite that the handler saves has the width and the height of the
  background image. The compositor returns it whenever the foreground width is not zero
  and the resize and the paste succeed; nothing is asked of the paste offset, which is
  negative when the scaled foreground is taller than the background.
\<close>

theorem composite_keeps_background_size:
  "(composite lib_env foreground_no_bg background_image = Inr merged \<longrightarrow>
      im_width merged = im_width background_image
      \<and> im_height merged = im_height background_image)
   \<and> (im_width foreground_no_bg \<noteq> 0
      \<and> resize_lanczos lib_env foreground_no_bg (im_width background_image)
           (new_foreground_height (im_width foreground_no_bg) (im_height foreground_no_bg)
              (im_width background_image)) = Inr px
      \<and> paste_masked lib_env background_image
           \<lparr>im_width = im_width background_image,
            im_height = new_foreground_height (im_width foreground_no_bg)
              (im_height foreground_no_bg) (im_width background_image),
            im_pixels = px\<rparr>
           (0, im_height background_image
               - new_foreground_height (im_width foreground_no_bg) (im_height foreground_no_bg)
                   (im_width background_image)) = Inr px' \<longrightarrow>
      composite lib_env foreground_no_bg background_image
        = Inr (background_image\<lparr>im_pixels := px'\<rparr>))"
proof (intro conjI impI)
  assume "composite lib_env foreground_no_bg background_image = Inr merged"
  then obtain px1 where "merged = background_image\<lparr>im_pixels := px1\<rparr>"
    by (auto simp: composite_def Let_def split: sum.splits)
  then show "im_width merged = im_width background_image" "im_height merged = im_height background_image"
    by simp_all
next
  assume "im_width foreground_no_bg \<noteq> 0
      \<and> resize_lanczos lib_env foreground_no_bg (im_width background_image)
           (new_foreground_height (im_width foreground_no_bg) (im_height foreground_no_bg)
              (im_width background_image)) = Inr px
      \<and> paste_masked lib_env background_image
           \<lparr>im_width = im_width background_image,
            im_height = new_foreground_height (im_width foreground_no_bg)
              (im_height foreground_no_bg) (im_width background_image),
            im_pixels = px\<rparr>
           (0, im_height background_image
               - new_foreground_height (im_width foreground_no_bg) (im_height foreground_no_bg)
                   (im_width background_image)) = Inr px'"
  then show "composite lib_env foreground_no_bg background_image
        = Inr (background_image\<lparr>im_pixels := px'\<rparr>)"
    by (simp add: composite_def resized_foreground_def Let_def)
qed

theorem composite_keeps_background_size_witness:
  "composite plain_lib portrait backdrop = Inr (backdrop\<lparr>im_pixels := ''pasted''\<rparr>)
   \<and> im_height backdrop - new_foreground_height (im_width portrait) (im_height portrait) (im_width backdrop)
       = - 233
   \<and> im_width (backdrop\<lparr>im_pixels := ''pasted''\<rparr>) = 400
   \<and> im_height (backdrop\<lparr>im_pixels := ''pasted''\<rparr>) = 300"
proof -
  have h: "new_foreground_height 600 800 400 = 533" by code_simp
  have 1: "im_width portrait \<noteq> 0
      \<and> resize_lanczos plain_lib portrait (im_width backdrop)
           (new_foreground_height (im_width portrait) (im_height portrait)
              (im_width backdrop)) = Inr ''scaled''
      \<and> paste_masked plain_lib backdrop
           \<lparr>im_width = im_width backdrop,
            im_height = new_foreground_height (im_width portrait)
              (im_height portrait) (im_width backdrop),
            im_pixels = ''scaled''\<rparr>
           (0, im_height backdrop
               - new_foreground_height (im_width portrait) (im_height portrait)
                   (im_width backdrop)) = Inr ''pasted''"
    by (simp add: plain_lib_def portrait_def backdrop_def h)
  from composite_keeps_background_size[of plain_lib portrait backdrop _ "''scaled''" "''pasted''"] 1
  have c: "composite plain_lib portrait backdrop = Inr (backdrop\<lparr>im_pixels := ''pasted''\<rparr>)"
    by blast
  from composite_keeps_background_size[of plain_lib portrait backdrop
      "backdrop\<lparr>im_pixels := ''pasted''\<rparr>"] c
  have "im_width (backdrop\<lparr>im_pixels := ''pasted''\<rparr>) = im_width backdrop
      \<and> im_height (backdrop\<lparr>im_pixels := ''pasted''\<rparr>) = im_height backdrop"
    by blast
  with c h show ?thesis by (simp add: portrait_def backdrop_def)
qed

section \<open>Properties of the image compositor\<close>

text \<open>Rounding to a double moves a positive value by at most the fraction \<open>2\<^sup>-\<^sup>5\<^sup>3\<close> of it.\<close>

lemma round_half_even_error: "\<bar>of_int (round_half_even x) - x\<bar> \<le> 1 / 2"
proof -
  have "of_int \<lfloor>x\<rfloor> \<le> x" "x < of_int \<lfloor>x\<rfloor> + 1" by linarith+
  then show ?thesis
    by (auto simp: round_half_even_def Let_def)
qed

lemma ilog2_lower:
  assumes "0 < x"
  shows "2 powi (ilog2 x) \<le> x"
proof -
  obtain p q where pq: "quotient_of x = (p, q)" by (cases "quotient_of x")
  then have q: "0 < q" by (rule quotient_of_denom_pos)
  from pq have x: "x = of_int p / of_int q" by (rule quotient_of_div)
  with assms q have p: "0 < p" by (simp add: zero_less_divide_iff)
  let ?k = "bitlen p - bitlen q"
  show ?thesis
  proof (cases "2 powi ?k \<le> x")
    case True
    with pq show ?thesis by (simp add: ilog2_def)
  next
    case False
    with pq have i: "ilog2 x = ?k - 1" by (simp add: ilog2_def)
    from bitlen_bounds[OF p] have b1: "(2::int) ^ nat (bitlen p - 1) \<le> p" by simp
    from bitlen_bounds[OF q] have b2: "q < (2::int) ^ nat (bitlen q)" by simp
    have bp: "1 \<le> bitlen p" using p by (simp add: bitlen_alt_def)
    have bq: "0 \<le> bitlen q" by (rule bitlen_nonneg)
    from b1 have c1: "(2::rat) ^ nat (bitlen p - 1) \<le> of_int p"
      by (metis of_int_le_iff of_int_numeral of_int_power)
    from b2 have c2: "(of_int q :: rat) \<le> 2 ^ nat (bitlen q)"
      by (metis less_imp_le of_int_le_iff of_int_numeral of_int_power)
    have eq: "?k - 1 = (bitlen p - 1) - bitlen q" by simp
    have "(2::rat) powi (?k - 1) = 2 powi ((bitlen p - 1) - bitlen q)"
      by (simp only: eq)
    also have "\<dots> = 2 powi (bitlen p - 1) / 2 powi (bitlen q)"
      by (rule power_int_diff) simp
    also have "\<dots> = 2 ^ nat (bitlen p - 1) / 2 ^ nat (bitlen q)"
      using bp bq by (simp add: power_int_def)
    also have "\<dots> \<le> of_int p / of_int q"
      using c1 c2 q p by (intro frac_le) auto
    finally show ?thesis using i x by simp
  qed
qed

lemma double_error:
  assumes "0 < x"
  shows "\<bar>double x - x\<bar> \<le> x / 2 ^ 53"
proof -
  let ?e = "ilog2 x - 52"
  let ?s = "(2::rat) powi ?e"
  have s: "0 < ?s" by (simp add: zero_less_power_int)
  have d: "double x = of_int (round_half_even (x / ?s)) * ?s"
    using assms by (simp add: double_def Let_def)
  have "\<bar>double x - x\<bar> = \<bar>of_int (round_half_even (x / ?s)) - x / ?s\<bar> * ?s"
  proof -
    have "double x - x = (of_int (round_half_even (x / ?s)) - x / ?s) * ?s"
      using s by (simp add: d algebra_simps)
    then show ?thesis using s by (simp add: abs_mult)
  qed
  also have "\<dots> \<le> (1 / 2) * ?s"
    using round_half_even_error[of "x / ?s"] s by (intro mult_right_mono) auto
  also have "?s = 2 powi (ilog2 x) / 2 ^ 52"
    by (simp add: power_int_diff)
  also have "(1 / 2) * (2 powi (ilog2 x) / 2 ^ 52) \<le> (1 / 2) * (x / 2 ^ 52)"
    using ilog2_lower[OF assms] by (intro mult_left_mono divide_right_mono) auto
  also have "\<dots> = x / 2 ^ 53" by simp
  finally show ?thesis .
qed

lemma double_bounds:
  assumes "0 \<le> x"
  shows "x - x / 2 ^ 53 \<le> double x \<and> double x \<le> x + x / 2 ^ 53"
proof (cases "x = 0")
  case True
  then show ?thesis by (simp add: double_def)
next
  case False
  with assms have "0 < x" by simp
  from double_error[OF this] show ?thesis
    by linarith
qed

lemma double_nonneg: "0 \<le> x \<Longrightarrow> 0 \<le> double x"
proof -
  assume a: "0 \<le> x"
  then have "x / 2 ^ 53 \<le> x"
    by (simp add: divide_le_eq)
  with double_bounds[OF a] show ?thesis by linarith
qed

text \<open>
  Three roundings in a row: the double computed for \<open>W * (h / w)\<close> is within \<open>q / 2\<^sup>5\<^sup>1\<close> of the
  exact quotient \<open>q\<close>.
\<close>

lemma triple_rounding:
  fixes a b :: rat
  assumes a: "0 \<le> a" and b: "0 \<le> b"
  shows "a * b - a * b / 2 ^ 51 \<le> double (double b * double a)
       \<and> double (double b * double a) \<le> a * b + a * b / 2 ^ 51"
proof -
  define u :: rat where "u = 1 / 2 ^ 53"
  have u: "0 < u" "u < 1" by (simp_all add: u_def)
  have da: "a * (1 - u) \<le> double a" "double a \<le> a * (1 + u)"
    using double_bounds[OF a] by (simp_all add: u_def algebra_simps)
  have db: "b * (1 - u) \<le> double b" "double b \<le> b * (1 + u)"
    using double_bounds[OF b] by (simp_all add: u_def algebra_simps)
  have na: "0 \<le> double a" using a by (rule double_nonneg)
  have nb: "0 \<le> double b" using b by (rule double_nonneg)
  let ?y = "double b * double a"
  have ny: "0 \<le> ?y" using na nb by simp
  have yl: "(b * (1 - u)) * (a * (1 - u)) \<le> ?y"
    using da(1) db(1) na nb a b u by (intro mult_mono) auto
  have yu: "?y \<le> (b * (1 + u)) * (a * (1 + u))"
    using da(2) db(2) na nb a b u by (intro mult_mono) auto
  have dy: "?y * (1 - u) \<le> double ?y" "double ?y \<le> ?y * (1 + u)"
    using double_bounds[OF ny] by (simp_all add: u_def algebra_simps)
  have l: "(b * (1 - u)) * (a * (1 - u)) * (1 - u) \<le> double ?y"
  proof -
    have "(b * (1 - u)) * (a * (1 - u)) * (1 - u) \<le> ?y * (1 - u)"
      using yl u by (intro mult_right_mono) auto
    with dy(1) show ?thesis by linarith
  qed
  have r: "double ?y \<le> (b * (1 + u)) * (a * (1 + u)) * (1 + u)"
  proof -
    have "?y * (1 + u) \<le> (b * (1 + u)) * (a * (1 + u)) * (1 + u)"
      using yu u by (intro mult_right_mono) auto
    with dy(2) show ?thesis by linarith
  qed
  have ab: "0 \<le> a * b" using a b by simp
  have c1: "(1 - u) * (1 - u) * (1 - u) \<ge> 1 - 1 / 2 ^ 51" by (simp add: u_def)
  have c2: "(1 + u) * (1 + u) * (1 + u) \<le> 1 + 1 / 2 ^ 51" by (simp add: u_def)
  have lo: "a * b - a * b / 2 ^ 51 \<le> double ?y"
  proof -
    have "a * b - a * b / 2 ^ 51 = a * b * (1 - 1 / 2 ^ 51)"
      by (simp add: algebra_simps)
    also have "\<dots> \<le> a * b * ((1 - u) * (1 - u) * (1 - u))"
      using ab c1 by (intro mult_left_mono) auto
    also have "\<dots> = (b * (1 - u)) * (a * (1 - u)) * (1 - u)"
      by (simp add: algebra_simps)
    also have "\<dots> \<le> double ?y" by (rule l)
    finally show ?thesis .
  qed
  have hi: "double ?y \<le> a * b + a * b / 2 ^ 51"
  proof -
    have "double ?y \<le> (b * (1 + u)) * (a * (1 + u)) * (1 + u)" by (rule r)
    also have "\<dots> = a * b * ((1 + u) * (1 + u) * (1 + u))"
      by (simp add: algebra_simps)
    also have "\<dots> \<le> a * b * (1 + 1 / 2 ^ 51)"
      using ab c2 by (intro mult_left_mono) auto
    also have "\<dots> = a * b + a * b / 2 ^ 51"
      by (simp add: algebra_simps)
    finally show ?thesis .
  qed
  from lo hi show ?thesis by simp
qed

lemma new_foreground_height_bounds:
  assumes w: "0 < w" and h: "0 \<le> h" and W: "0 \<le> W" and small: "h * W < 2 ^ 50"
  shows "(h * W) div w - 1 \<le> new_foreground_height w h W
       \<and> new_foreground_height w h W \<le> (h * W) div w
       \<and> (\<not> w dvd h * W \<longrightarrow> new_foreground_height w h W = (h * W) div w)"
proof -
  define a :: rat where "a = of_int h / of_int w"
  define b :: rat where "b = of_int W"
  define p :: rat where "p = double (double b * double a)"
  define N where "N = h * W"
  define k where "k = N div w"
  define j where "j = N mod w"
  have a: "0 \<le> a" using w h by (simp add: a_def)
  have b: "0 \<le> b" using W by (simp add: b_def)
  have p0: "0 \<le> p"
    unfolding p_def using a b by (intro double_nonneg mult_nonneg_nonneg)
  have nfh: "new_foreground_height w h W = \<lfloor>p\<rfloor>"
    using p0 by (simp add: new_foreground_height_def Let_def int_of_float_def p_def a_def b_def)
  have rw: "(0::rat) < of_int w" using w by simp
  have N0: "0 \<le> N" using h W by (simp add: N_def)
  have Nj: "N = w * k + j" "0 \<le> j" "j < w"
    using w by (simp_all add: k_def j_def)
  have q: "a * b * of_int w = of_int N"
    using rw by (simp add: a_def b_def N_def)
  have e: "(of_int N :: rat) / 2 ^ 51 < 1 / 2"
  proof -
    have "(of_int N :: rat) < of_int (2 ^ 50)" using small unfolding N_def by (simp only: of_int_less_iff)
    then show ?thesis by simp
  qed
  have e0: "(0::rat) \<le> of_int N / 2 ^ 51" using N0 by simp
  from triple_rounding[OF a b] have tr: "a * b - a * b / 2 ^ 51 \<le> p" "p \<le> a * b + a * b / 2 ^ 51"
    by (simp_all add: p_def)
  have up: "p * of_int w \<le> of_int N + of_int N / 2 ^ 51"
  proof -
    have "p * of_int w \<le> (a * b + a * b / 2 ^ 51) * of_int w"
      using tr(2) rw by (intro mult_right_mono) auto
    also have "\<dots> = a * b * of_int w + (a * b * of_int w) / 2 ^ 51"
      by (simp add: algebra_simps)
    finally show ?thesis by (simp only: q)
  qed
  have lo: "of_int N - of_int N / 2 ^ 51 \<le> p * of_int w"
  proof -
    have "(a * b - a * b / 2 ^ 51) * of_int w \<le> p * of_int w"
      using tr(1) rw by (intro mult_right_mono) auto
    moreover have "(a * b - a * b / 2 ^ 51) * of_int w = a * b * of_int w - (a * b * of_int w) / 2 ^ 51"
      by (simp add: algebra_simps)
    ultimately show ?thesis by (simp only: q)
  qed
  have i1: "(of_int N :: rat) + 1 \<le> (of_int k + 1) * of_int w"
  proof -
    have "N + 1 \<le> (k + 1) * w" using Nj by (simp add: algebra_simps)
    then have "(of_int (N + 1) :: rat) \<le> of_int ((k + 1) * w)" by (simp only: of_int_le_iff)
    then show ?thesis by simp
  qed
  have i2: "(of_int k - 1) * of_int w \<le> (of_int N :: rat) - 1"
  proof -
    have "(k - 1) * w \<le> N - 1" using Nj w by (simp add: algebra_simps)
    then have "(of_int ((k - 1) * w) :: rat) \<le> of_int (N - 1)" by (simp only: of_int_le_iff)
    then show ?thesis by simp
  qed
  have "p * of_int w < (of_int k + 1) * of_int w" using up e i1 by linarith
  then have "p < of_int k + 1" using rw by (simp only: mult_less_cancel_right_pos)
  then have "p < of_int (k + 1)" by simp
  then have "\<lfloor>p\<rfloor> < k + 1" by (simp only: floor_less_iff)
  then have c1: "\<lfloor>p\<rfloor> \<le> k" by simp
  have "(of_int k - 1) * of_int w < p * of_int w" using lo e i2 by linarith
  then have "of_int k - 1 < p" using rw by (simp only: mult_less_cancel_right_pos)
  then have "of_int (k - 1) \<le> p" by simp
  then have c2: "k - 1 \<le> \<lfloor>p\<rfloor>" by (simp only: le_floor_iff)
  have c3: "\<lfloor>p\<rfloor> = k" if nd: "\<not> w dvd h * W"
  proof -
    from nd have "j \<noteq> 0" by (auto simp: j_def N_def dvd_eq_mod_eq_0)
    with Nj have "k * w \<le> N - 1" by (simp add: algebra_simps)
    then have "(of_int (k * w) :: rat) \<le> of_int (N - 1)" by (simp only: of_int_le_iff)
    then have "(of_int k :: rat) * of_int w \<le> of_int N - 1" by simp
    with lo e have "of_int k * of_int w \<le> p * of_int w" by linarith
    then have "of_int k \<le> p" using rw by (simp only: mult_le_cancel_right_pos)
    then have "k \<le> \<lfloor>p\<rfloor>" by (simp only: le_floor_iff)
    with c1 show ?thesis by simp
  qed
  show ?thesis using c1 c2 c3 by (simp add: nfh k_def N_def)
qed

text \<open>
  Claim C8, as amended. For a foreground of width \<open>w > 0\<close> and height \<open>h \<ge> 0\<close> and a background
  of width \<open>W \<ge> 0\<close> with \<open>h * W < 2\<^sup>5\<^sup>0\<close>, the scaled foreground has width exactly \<open>W\<close>. Its height
  is \<open>int(W * (h / w))\<close> in double-precision arithmetic: it is \<open>h * W / w\<close> truncated when
  \<open>w\<close> does not divide \<open>h * W\<close>, and that value or one less when it does.
\<close>

theorem scaled_foreground_size:
  assumes "resized_foreground lib_env foreground_no_bg background_image = Inr resized"
    and "0 < im_width foreground_no_bg"
    and "0 \<le> im_height foreground_no_bg"
    and "0 \<le> im_width background_image"
    and "im_height foreground_no_bg * im_width background_image < 2 ^ 50"
  shows "im_width resized = im_width background_image
       \<and> im_height resized
           = new_foreground_height (im_width foreground_no_bg) (im_height foreground_no_bg)
               (im_width background_image)
       \<and> (im_height foreground_no_bg * im_width background_image) div im_width foreground_no_bg - 1
           \<le> im_height resized
       \<and> im_height resized
           \<le> (im_height foreground_no_bg * im_width background_image) div im_width foreground_no_bg
       \<and> (\<not> im_width foreground_no_bg dvd im_height foreground_no_bg * im_width background_image \<longrightarrow>
            im_height resized
              = (im_height foreground_no_bg * im_width background_image) div im_width foreground_no_bg)"
proof -
  from assms(1,2) obtain px where r:
    "resized = \<lparr>im_width = im_width background_image,
        im_height = new_foreground_height (im_width foreground_no_bg) (im_height foreground_no_bg)
               (im_width background_image),
        im_pixels = px\<rparr>"
    by (auto simp: resized_foreground_def Let_def split: sum.splits)
  from new_foreground_height_bounds[OF assms(2,3,4,5)] r show ?thesis by simp
qed

theorem scaled_foreground_size_witness:
  "resized_foreground plain_lib portrait backdrop
     = Inr \<lparr>im_width = 400, im_height = 533, im_pixels = ''scaled''\<rparr>
   \<and> (800 * 400) div 600 = (533::int)"
proof -
  have h: "new_foreground_height 600 800 400 = 533" by code_simp
  have r: "resized_foreground plain_lib portrait backdrop
     = Inr \<lparr>im_width = 400, im_height = 533, im_pixels = ''scaled''\<rparr>"
    by (simp add: resized_foreground_def plain_lib_def portrait_def backdrop_def h)
  have "0 < im_width portrait" "0 \<le> im_height portrait" "0 \<le> im_width backdrop"
    "im_height portrait * im_width backdrop < 2 ^ 50"
    by (simp_all add: portrait_def backdrop_def)
  from scaled_foreground_size[OF r this] r show ?thesis
    by (simp add: portrait_def backdrop_def)
qed

text \<open>
  Claim C8 as stated fails: a foreground of 3 by 13 scaled to a background width of 27
  gets height 116, where \<open>13 * 27 / 3\<close> is 117, since the double nearest to \<open>13 / 3\<close> is
  below \<open>13 / 3\<close>.
\<close>

theorem scaled_height_counterexample:
  "resized_foreground plain_lib \<lparr>im_width = 3, im_height = 13, im_pixels = ''FG''\<rparr>
       \<lparr>im_width = 27, im_height = 40, im_pixels = ''BG''\<rparr>
     = Inr \<lparr>im_width = 27, im_height = 116, im_pixels = ''scaled''\<rparr>
   \<and> (116::int) \<noteq> (13 * 27) div 3"
proof -
  have h: "new_foreground_height 3 13 27 = 116" by code_simp
  show ?thesis
    by (simp add: resized_foreground_def plain_lib_def h)
qed

end
